theory Spec2Isabelle
  imports Complex_Main "HOL-Library.Sublist" "HOL-Library.List_Lexorder" "HOL-Library.Char_ord"
    "HOL-Library.Product_Lexorder"
begin

section \<open>JavaScript values\<close>

text \<open>
  The values that cross the program's boundaries (request bodies, parsed metadata, bound
  statement arguments) are JavaScript values. A JavaScript number is modelled as a real
  (NaN and the infinities are not JSON and are left out). The fields of an object are an
  association list with distinct keys, as the own properties of a parsed JSON object are.
\<close>

datatype jsval =
    Undefined
  | Null
  | Bool bool
  | Num real
  | Str string
  | Arr "jsval list"
  | Obj "(string \<times> jsval) list"

text \<open>Truthiness, as tested by \<^verbatim>\<open>if (v)\<close>, \<^verbatim>\<open>v || d\<close> and \<^verbatim>\<open>v ? a : b\<close>.\<close>

fun truthy :: "jsval \<Rightarrow> bool" where
  "truthy Undefined = False"
| "truthy Null = False"
| "truthy (Bool b) = b"
| "truthy (Num n) = (n \<noteq> 0)"
| "truthy (Str s) = (s \<noteq> [])"
| "truthy (Arr vs) = True"
| "truthy (Obj fs) = True"

text \<open>
  Property read \<^verbatim>\<open>v.k\<close>, for the property names this program reads (none of them is
  a built-in property of a string, an array, a number or a boolean). Reading a property of
  \<^verbatim>\<open>null\<close> or \<^verbatim>\<open>undefined\<close> throws a TypeError: the result \<open>None\<close>. A property that
  is not there reads as \<^verbatim>\<open>undefined\<close>.
\<close>

fun get_prop :: "jsval \<Rightarrow> string \<Rightarrow> jsval option" where
  "get_prop Undefined k = None"
| "get_prop Null k = None"
| "get_prop (Obj fs) k = Some (case map_of fs k of None \<Rightarrow> Undefined | Some v \<Rightarrow> v)"
| "get_prop (Bool b) k = Some Undefined"
| "get_prop (Num n) k = Some Undefined"
| "get_prop (Str s) k = Some Undefined"
| "get_prop (Arr vs) k = Some Undefined"

text \<open>\<^verbatim>\<open>a || b\<close> on values.\<close>

definition js_or :: "jsval \<Rightarrow> jsval \<Rightarrow> jsval" where
  "js_or a b = (if truthy a then a else b)"

text \<open>\<^verbatim>\<open>s.includes(n)\<close>, \<^verbatim>\<open>s.startsWith(p)\<close> and \<^verbatim>\<open>s.endsWith(p)\<close> on strings.\<close>

fun str_includes :: "string \<Rightarrow> string \<Rightarrow> bool" where
  "str_includes [] n = (n = [])"
| "str_includes (c # cs) n = (prefix n (c # cs) \<or> str_includes cs n)"

definition startsWith :: "string \<Rightarrow> string \<Rightarrow> bool" where
  "startsWith s p = prefix p s"

definition endsWith :: "string \<Rightarrow> string \<Rightarrow> bool" where
  "endsWith s p = prefix (rev p) (rev s)"


section \<open>services/naiService.ts: generateImage\<close>

subsection \<open>The request parameters and the provider payload\<close>

text \<open>
  \<^verbatim>\<open>NAIParams\<close> is declared in \<^verbatim>\<open>../types\<close>; the record has the fields that
  \<^verbatim>\<open>generateImage\<close> reads, an optional field being \<open>None\<close> when it is
  \<^verbatim>\<open>undefined\<close> (or \<^verbatim>\<open>null\<close>, which every test of the function treats alike). Field
  names carry a prefix, since a record field is a global constant.
\<close>

record character =
  c_prompt :: string
  c_negativePrompt :: "string option"
  c_x :: real
  c_y :: real

record NAIParams =
  np_seed :: "real option"
  np_qualityToggle :: "bool option"
  np_ucPreset :: "real option"
  np_characters :: "character list option"
  np_useCoords :: "bool option"
  np_width :: real
  np_height :: real
  np_scale :: real
  np_sampler :: string
  np_steps :: real
  np_variety :: "bool option"
  np_cfgRescale :: "real option"

record center =
  center_x :: real
  center_y :: real

record char_caption_entry =
  char_caption :: string
  centers :: "center list"

record v4_prompt =
  vp_base_caption :: string
  vp_char_captions :: "char_caption_entry list"
  vp_use_coords :: "bool option"
  vp_use_order :: bool

record v4_negative_prompt =
  vn_base_caption :: string
  vn_char_captions :: "char_caption_entry list"
  vn_legacy_uc :: bool

text \<open>\<open>pp_seed\<close> is \<open>None\<close> when the payload has no \<^verbatim>\<open>seed\<close> key.\<close>

record parameters =
  pp_params_version :: real
  pp_width :: real
  pp_height :: real
  pp_scale :: real
  pp_sampler :: string
  pp_steps :: real
  pp_n_samples :: real
  pp_skip_cfg_above_sigma :: "real option"
  pp_cfg_rescale :: real
  pp_qualityToggle :: bool
  pp_ucPreset :: real
  pp_sm :: bool
  pp_sm_dyn :: bool
  pp_dynamic_thresholding :: bool
  pp_controlnet_strength :: real
  pp_legacy :: bool
  pp_add_original_image :: bool
  pp_uncond_scale :: real
  pp_noise_schedule :: string
  pp_negative_prompt :: string
  pp_v4_prompt :: v4_prompt
  pp_v4_negative_prompt :: v4_negative_prompt
  pp_deliberate_euler_ancestral_bug :: bool
  pp_prefer_brownian :: bool
  pp_seed :: "real option"

record payload =
  pl_input :: string
  pl_model :: string
  pl_action :: string
  pl_parameters :: parameters

subsection \<open>Building the payload (lines 10 to 112)\<close>

text \<open>
  \<^verbatim>\<open>NAI_QUALITY_TAGS\<close> and \<^verbatim>\<open>NAI_UC_PRESETS\<close> are imported from
  \<^verbatim>\<open>./promptUtils\<close>; they are parameters here. \<open>NAI_UC_PRESETS i\<close> is the
  indexed read \<^verbatim>\<open>NAI_UC_PRESETS[i]\<close>, \<open>None\<close> when it is \<^verbatim>\<open>undefined\<close>.
\<close>

definition sanitize_seed :: "NAIParams \<Rightarrow> real option" where
  "sanitize_seed params =
     (case np_seed params of
        None \<Rightarrow> None
      | Some s \<Rightarrow> if s \<noteq> - 1 then Some s else None)"

definition hasCharacters :: "NAIParams \<Rightarrow> bool option" where
  "hasCharacters params =
     (case np_characters params of
        None \<Rightarrow> None
      | Some cs \<Rightarrow> Some (length cs > 0))"

definition charCaptions :: "NAIParams \<Rightarrow> char_caption_entry list" where
  "charCaptions params =
     (if hasCharacters params = Some True
      then map (\<lambda>c. \<lparr> char_caption = c_prompt c,
                       centers = [\<lparr> center_x = c_x c, center_y = c_y c \<rparr>] \<rparr>)
               (case np_characters params of None \<Rightarrow> [] | Some cs \<Rightarrow> cs)
      else [])"

definition charNegativeCaptions :: "NAIParams \<Rightarrow> char_caption_entry list" where
  "charNegativeCaptions params =
     (if hasCharacters params = Some True
      then map (\<lambda>c. \<lparr> char_caption =
                         (case c_negativePrompt c of
                            None \<Rightarrow> []
                          | Some s \<Rightarrow> if s \<noteq> [] then s else []),
                       centers = [\<lparr> center_x = c_x c, center_y = c_y c \<rparr>] \<rparr>)
               (case np_characters params of None \<Rightarrow> [] | Some cs \<Rightarrow> cs)
      else [])"

definition generateImage_payload ::
  "string \<Rightarrow> (real \<Rightarrow> string option) \<Rightarrow> string \<Rightarrow> string \<Rightarrow> NAIParams \<Rightarrow> payload" where
  "generateImage_payload NAI_QUALITY_TAGS NAI_UC_PRESETS prompt negative params =
     (let seed = sanitize_seed params;
          qualityToggle = (case np_qualityToggle params of None \<Rightarrow> True | Some b \<Rightarrow> b);
          finalPrompt = (if qualityToggle then prompt @ NAI_QUALITY_TAGS else prompt);
          presetId = (case np_ucPreset params of None \<Rightarrow> 0 | Some i \<Rightarrow> i);
          finalNegative =
            (if presetId \<noteq> 4
             then (case NAI_UC_PRESETS presetId of
                     None \<Rightarrow> negative
                   | Some presetString \<Rightarrow>
                       if presetString \<noteq> [] then presetString @ negative else negative)
             else negative);
          useCoords = (case np_useCoords params of
                         Some b \<Rightarrow> Some b
                       | None \<Rightarrow> hasCharacters params)
      in \<lparr> pl_input = finalPrompt,
           pl_model = ''nai-diffusion-4-5-full'',
           pl_action = ''generate'',
           pl_parameters =
             \<lparr> pp_params_version = 3,
               pp_width = np_width params,
               pp_height = np_height params,
               pp_scale = np_scale params,
               pp_sampler = np_sampler params,
               pp_steps = np_steps params,
               pp_n_samples = 1,
               pp_skip_cfg_above_sigma =
                 (if np_variety params = Some True then Some 58 else None),
               pp_cfg_rescale = (case np_cfgRescale params of None \<Rightarrow> 0 | Some r \<Rightarrow> r),
               pp_qualityToggle = qualityToggle,
               pp_ucPreset = presetId,
               pp_sm = False,
               pp_sm_dyn = False,
               pp_dynamic_thresholding = False,
               pp_controlnet_strength = 1,
               pp_legacy = False,
               pp_add_original_image = True,
               pp_uncond_scale = 1,
               pp_noise_schedule = ''karras'',
               pp_negative_prompt = finalNegative,
               pp_v4_prompt =
                 \<lparr> vp_base_caption = finalPrompt,
                   vp_char_captions = charCaptions params,
                   vp_use_coords = useCoords,
                   vp_use_order = True \<rparr>,
               pp_v4_negative_prompt =
                 \<lparr> vn_base_caption = finalNegative,
                   vn_char_captions = charNegativeCaptions params,
                   vn_legacy_uc = False \<rparr>,
               pp_deliberate_euler_ancestral_bug = False,
               pp_prefer_brownian = True,
               pp_seed = seed \<rparr> \<rparr>)"

subsection \<open>Reading the archive (lines 120 to 151)\<close>

text \<open>
  \<^verbatim>\<open>zip.files\<close> is an object from entry names to entries; the model is the list of its
  entries in the order of \<^verbatim>\<open>Object.keys(zip.files)\<close>. \<open>ze_data\<close> is the content of the
  entry; \<open>base64\<close> stands for JSZip's \<^verbatim>\<open>async('base64')\<close> and \<open>JSON_parse\<close> for
  \<^verbatim>\<open>JSON.parse\<close>, which is \<open>None\<close> when it throws. The result is an error message
  (the \<^verbatim>\<open>throw\<close>) or the returned object.
\<close>

record zip_entry =
  ze_name :: string
  ze_data :: string

record image_result =
  ir_image :: string
  ir_seed :: jsval

definition metadata_seed :: "(string \<Rightarrow> jsval option) \<Rightarrow> jsval \<Rightarrow> zip_entry list \<Rightarrow> jsval" where
  "metadata_seed JSON_parse actualSeed files =
     (case List.find (\<lambda>f. endsWith (ze_name f) ''.json'') files of
        None \<Rightarrow> actualSeed
      | Some jsonFile \<Rightarrow>
          (case JSON_parse (ze_data jsonFile) of
             None \<Rightarrow> actualSeed
           | Some json \<Rightarrow>
               (case get_prop json ''seed'' of
                  None \<Rightarrow> actualSeed
                | Some s \<Rightarrow> if truthy s then s else actualSeed)))"

definition generateImage_decode ::
  "(string \<Rightarrow> jsval option) \<Rightarrow> (string \<Rightarrow> string) \<Rightarrow> real option \<Rightarrow> zip_entry list
     \<Rightarrow> string + image_result" where
  "generateImage_decode JSON_parse base64 seed files =
     (case files of
        [] \<Rightarrow> Inl ''No image found in response''
      | first # rest \<Rightarrow>
          if ze_name first = [] then Inl ''No image found in response''
          else
            (let fileData = base64 (ze_data first);
                 actualSeed = (case seed of None \<Rightarrow> Num 0 | Some s \<Rightarrow> Num s)
             in Inr \<lparr> ir_image = ''data:image/png;base64,'' @ fileData,
                      ir_seed = metadata_seed JSON_parse actualSeed files \<rparr>))"

text \<open>
  The whole function: \<open>postBinary\<close> is \<^verbatim>\<open>api.postBinary\<close> (given the API key and the
  payload) and \<open>loadAsync\<close> is \<^verbatim>\<open>JSZip.loadAsync\<close>; each returns an error message
  when it rejects.
\<close>

definition generateImage ::
  "string \<Rightarrow> (real \<Rightarrow> string option) \<Rightarrow> (string \<Rightarrow> payload \<Rightarrow> string + 'blob)
     \<Rightarrow> ('blob \<Rightarrow> string + zip_entry list) \<Rightarrow> (string \<Rightarrow> jsval option) \<Rightarrow> (string \<Rightarrow> string)
     \<Rightarrow> string \<Rightarrow> string \<Rightarrow> string \<Rightarrow> NAIParams \<Rightarrow> string + image_result" where
  "generateImage NAI_QUALITY_TAGS NAI_UC_PRESETS postBinary loadAsync JSON_parse base64
       apiKey prompt negative params =
     (case postBinary apiKey
             (generateImage_payload NAI_QUALITY_TAGS NAI_UC_PRESETS prompt negative params) of
        Inl e \<Rightarrow> Inl e
      | Inr blob \<Rightarrow>
          (case loadAsync blob of
             Inl e \<Rightarrow> Inl e
           | Inr files \<Rightarrow>
               generateImage_decode JSON_parse base64 (sanitize_seed params) files))"


subsection \<open>Sample parameters\<close>

text \<open>
  The parameter object that the worker stores with the first version of a chain
  (\<^verbatim>\<open>defaultParams\<close> in \<^verbatim>\<open>worker/index.ts\<close>, line 211), every optional field absent,
  and a list of two characters.
\<close>

definition defaultParams :: NAIParams where
  "defaultParams =
     \<lparr> np_seed = None, np_qualityToggle = None, np_ucPreset = None, np_characters = None,
       np_useCoords = None, np_width = 832, np_height = 1216, np_scale = 5,
       np_sampler = ''k_euler_ancestral'', np_steps = 28, np_variety = None,
       np_cfgRescale = None \<rparr>"

definition two_characters :: "character list" where
  "two_characters =
     [\<lparr> c_prompt = ''girl, red hair'', c_negativePrompt = Some ''hat'', c_x = 0.3, c_y = 0.5 \<rparr>,
      \<lparr> c_prompt = ''boy'', c_negativePrompt = None, c_x = 0.7, c_y = 0.5 \<rparr>]"



section \<open>worker/index.ts: the fetch handler\<close>

subsection \<open>The platform: database binding, provider, JSON, identifiers and clock\<close>

text \<open>
  The statements the worker prepares, each with the values it binds, in the order of the
  placeholders.
  \<^item> \<open>SelectChains\<close>: \<^verbatim>\<open>SELECT * FROM chains ORDER BY updated_at DESC\<close>
  \<^item> \<open>SelectLatestVersions\<close>: the join of \<^verbatim>\<open>versions\<close> with the maximal version of each chain
  \<^item> \<open>InsertChain id name description tags created_at updated_at\<close>
  \<^item> \<open>InsertVersion id chain_id version base_prompt negative_prompt modules params created_at\<close>
  \<^item> \<open>UpdateChain name description preview_image updated_at id\<close>:
    \<^verbatim>\<open>UPDATE chains SET ... WHERE id = ?\<close>, a column being set when its value is given
  \<^item> \<open>DeleteChain id\<close>: \<^verbatim>\<open>DELETE FROM chains WHERE id = ?\<close>
  \<^item> \<open>SelectMaxVersion chain_id\<close>:
    \<^verbatim>\<open>SELECT MAX(version) as max_v FROM versions WHERE chain_id = ?\<close>
  \<^item> \<open>TouchChain updated_at id\<close>: \<^verbatim>\<open>UPDATE chains SET updated_at = ? WHERE id = ?\<close>
  \<^item> \<open>SelectArtists\<close>: \<^verbatim>\<open>SELECT * FROM artists ORDER BY name ASC\<close>
  \<^item> \<open>UpsertArtist id name image_url\<close>: \<^verbatim>\<open>INSERT OR REPLACE INTO artists ...\<close>
  \<^item> \<open>DeleteArtist id\<close>: \<^verbatim>\<open>DELETE FROM artists WHERE id = ?\<close>
  \<^item> \<open>SelectInspirations\<close>: \<^verbatim>\<open>SELECT * FROM inspirations ORDER BY created_at DESC\<close>
  \<^item> \<open>UpsertInspiration id title image_url prompt created_at\<close>
  \<^item> \<open>DeleteInspiration id\<close>: \<^verbatim>\<open>DELETE FROM inspirations WHERE id = ?\<close>
\<close>

datatype stmt =
    SelectChains
  | SelectLatestVersions
  | InsertChain string jsval jsval string int int
  | InsertVersion string string int jsval jsval string string int
  | UpdateChain "jsval option" "jsval option" "jsval option" int string
  | DeleteChain string
  | SelectMaxVersion string
  | TouchChain int string
  | SelectArtists
  | UpsertArtist jsval jsval jsval
  | DeleteArtist string
  | SelectInspirations
  | UpsertInspiration jsval jsval jsval jsval jsval
  | DeleteInspiration string

text \<open>
  \<^verbatim>\<open>INIT_SQL\<close>: the four tables and the index, each created if it does not exist. The
  columns and constraints of the script are in the store of the next section.
\<close>

datatype schema_stmt = CreateTable string | CreateIndex string string

definition INIT_SQL :: "schema_stmt list" where
  "INIT_SQL =
     [CreateTable ''chains'', CreateTable ''versions'', CreateTable ''artists'',
      CreateTable ''inspirations'', CreateIndex ''idx_versions_chain_id'' ''versions'']"

text \<open>
  A row of a result is an object. What the provider answers is its status and its body;
  \<^verbatim>\<open>ok\<close> is a status from 200 to 299.
\<close>

type_synonym row = "(string \<times> jsval) list"

record nai_response =
  nr_status :: int
  nr_body :: string

definition nr_ok :: "nai_response \<Rightarrow> bool" where
  "nr_ok r = (200 \<le> nr_status r \<and> nr_status r \<le> 299)"

text \<open>
  Everything outside the worker acts on a state \<open>'s\<close> and either fails with the message of
  the error it throws (\<open>Inl\<close>) or returns. \<open>d1_all\<close>, \<open>d1_first\<close> and \<open>d1_run\<close> are
  \<^verbatim>\<open>all()\<close>, \<^verbatim>\<open>first()\<close> and \<^verbatim>\<open>run()\<close> of a prepared statement and \<open>d1_exec\<close> is
  \<^verbatim>\<open>db.exec\<close>. The only \<^verbatim>\<open>first()\<close> of the program is typed
  \<^verbatim>\<open>first<{ max_v: number }>()\<close>: its result is \<open>None\<close> for no row, and a row holds
  \<open>None\<close> for the SQL null. \<open>nai_fetch\<close> is the \<^verbatim>\<open>fetch\<close> of the provider's URL, given the
  Authorization header and the body.
\<close>

record 's platform =
  d1_all :: "stmt \<Rightarrow> 's \<Rightarrow> (string + row list) \<times> 's"
  d1_first :: "stmt \<Rightarrow> 's \<Rightarrow> (string + int option option) \<times> 's"
  d1_run :: "stmt \<Rightarrow> 's \<Rightarrow> (string + unit) \<times> 's"
  d1_exec :: "schema_stmt list \<Rightarrow> 's \<Rightarrow> (string + unit) \<times> 's"
  nai_fetch :: "string \<Rightarrow> string \<Rightarrow> 's \<Rightarrow> (string + nai_response) \<times> 's"
  JSON_parse :: "string \<Rightarrow> string + jsval"
  JSON_stringify :: "jsval \<Rightarrow> string"

text \<open>
  The results of \<^verbatim>\<open>crypto.randomUUID()\<close> and \<^verbatim>\<open>Date.now()\<close> during one invocation:
  \<open>randomUUID rt k\<close> is what call number k returns.
\<close>

record runtime =
  randomUUID :: "nat \<Rightarrow> string"
  Date_now :: "nat \<Rightarrow> int"

subsection \<open>Requests, environment and responses\<close>

text \<open>
  \<open>rq_path\<close> is \<^verbatim>\<open>url.pathname\<close>, \<open>rq_master_key\<close> is
  \<^verbatim>\<open>request.headers.get('X-Master-Key')\<close> and \<open>rq_json\<close> is the outcome of
  \<^verbatim>\<open>await request.json()\<close>: the parsed body, or the message of its rejection.
\<close>

record request =
  rq_method :: string
  rq_path :: string
  rq_master_key :: "string option"
  rq_json :: "string + jsval"

text \<open>
  \<^verbatim>\<open>env.DB\<close> is not set, or a string (a variable of that name), or some other value
  without \<^verbatim>\<open>prepare\<close>, or the database binding, whose operations are in the platform.
\<close>

datatype db_binding = DB_undefined | DB_string string | DB_other | DB_d1

record env =
  NAI_API_KEY :: string
  MASTER_KEY :: string
  DB :: db_binding

text \<open>
  A response has a status, a content type and a body, and the CORS headers, which every
  response that the worker builds carries. \<open>AssetsResponse\<close> is whatever
  \<^verbatim>\<open>env.ASSETS.fetch(request)\<close> answers.
\<close>

datatype rbody = Text string | Binary string | Empty

datatype response =
    Response (rs_status: int) (rs_content_type: "string option") (rs_body: rbody)
  | AssetsResponse

definition json :: "'s platform \<Rightarrow> jsval \<Rightarrow> int \<Rightarrow> response" where
  "json P data status =
     Response status (Some ''application/json'') (Text (JSON_stringify P data))"

definition error :: "'s platform \<Rightarrow> string \<Rightarrow> int \<Rightarrow> response" where
  "error P msg status =
     Response status (Some ''application/json'')
       (Text (JSON_stringify P (Obj [(''error'', Str msg)])))"

definition success :: "'s platform \<Rightarrow> response" where
  "success P = json P (Obj [(''success'', Bool True)]) 200"

subsection \<open>Reading objects\<close>

text \<open>
  \<open>js_prop v k\<close> is \<^verbatim>\<open>v.k\<close> where \<open>v\<close> is known not to be null; \<open>row_field r k\<close> reads a
  row; \<open>obj_set\<close> is the assignment \<^verbatim>\<open>r.k = v\<close> (and a later initialiser of an object
  literal): an existing key keeps its place. Reading a property of null throws a
  TypeError, whose message the model abbreviates.
\<close>

definition js_prop :: "jsval \<Rightarrow> string \<Rightarrow> jsval" where
  "js_prop v k = (case get_prop v k of None \<Rightarrow> Undefined | Some x \<Rightarrow> x)"

definition row_field :: "row \<Rightarrow> string \<Rightarrow> jsval" where
  "row_field r k = (case map_of r k of None \<Rightarrow> Undefined | Some v \<Rightarrow> v)"

definition obj_set :: "row \<Rightarrow> string \<Rightarrow> jsval \<Rightarrow> row" where
  "obj_set r k v =
     (if k \<in> fst ` set r then map (\<lambda>(k', v'). if k' = k then (k', v) else (k', v')) r
      else r @ [(k, v)])"

definition TypeError :: string where
  "TypeError = ''TypeError: Cannot read properties of null''"

text \<open>
  \<^verbatim>\<open>JSON.parse(v)\<close> for a truthy value read from a row: a text is parsed; a number and
  \<^verbatim>\<open>true\<close> are converted to their text first, whose parse is the value itself. An
  array or an object (no column of the schema holds one) is converted to a text which as a
  rule is not JSON; the model takes the parse to fail.
\<close>

definition JSON_parse_value :: "'s platform \<Rightarrow> jsval \<Rightarrow> string + jsval" where
  "JSON_parse_value P v =
     (case v of
        Str t \<Rightarrow> JSON_parse P t
      | Num n \<Rightarrow> Inr (Num n)
      | Bool b \<Rightarrow> Inr (Bool b)
      | Null \<Rightarrow> Inr Null
      | Undefined \<Rightarrow> Inl ''SyntaxError''
      | Arr vs \<Rightarrow> Inl ''SyntaxError''
      | Obj fs \<Rightarrow> Inl ''SyntaxError'')"

subsection \<open>The routes\<close>

text \<open>
  Each route of \<^verbatim>\<open>fetch\<close> is a definition of its own, named after the operation of the
  specification that it implements. A route returns the response, or the message of the
  error it throws (which the \<^verbatim>\<open>catch\<close> at the end of \<^verbatim>\<open>fetch\<close> turns into a 500), and
  the state of the platform after it.
\<close>

text \<open>Lines 108 to 112: \<^verbatim>\<open>POST /api/verify-key\<close>.\<close>

definition verify_key ::
  "'s platform \<Rightarrow> env \<Rightarrow> string + jsval \<Rightarrow> 's \<Rightarrow> (string + response) \<times> 's" where
  "verify_key P e body_json s =
     (case body_json of
        Inl err \<Rightarrow> (Inl err, s)
      | Inr body \<Rightarrow>
          (case get_prop body ''key'' of
             None \<Rightarrow> (Inl TypeError, s)
           | Some key \<Rightarrow>
               if key = Str (MASTER_KEY e) then (Inr (success P), s)
               else (Inr (error P ''Invalid Key'' 401), s)))"

text \<open>Lines 115 to 135: \<^verbatim>\<open>POST /api/generate\<close>, the proxy to the provider.\<close>

definition generate ::
  "'s platform \<Rightarrow> env \<Rightarrow> string + jsval \<Rightarrow> 's \<Rightarrow> (string + response) \<times> 's" where
  "generate P e body_json s =
     (case body_json of
        Inl err \<Rightarrow> (Inl err, s)
      | Inr body \<Rightarrow>
          (case nai_fetch P (''Bearer '' @ NAI_API_KEY e) (JSON_stringify P body) s of
             (Inl err, s1) \<Rightarrow> (Inl err, s1)
           | (Inr naiRes, s1) \<Rightarrow>
               if \<not> nr_ok naiRes
               then (Inr (error P (''NAI API Error: '' @ nr_body naiRes) (nr_status naiRes)), s1)
               else (Inr (Response 200 (Some ''application/zip'') (Binary (nr_body naiRes))),
                     s1)))"

text \<open>Lines 151 to 189: \<^verbatim>\<open>GET /api/chains\<close>. First the query of the chains, with its retry.\<close>

definition listChains_query :: "'s platform \<Rightarrow> 's \<Rightarrow> (string + row list) \<times> 's" where
  "listChains_query P s =
     (case d1_all P SelectChains s of
        (Inr chainsResult, s1) \<Rightarrow> (Inr chainsResult, s1)
      | (Inl msg, s1) \<Rightarrow>
          if str_includes msg ''no such table'' \<or> str_includes msg ''object not found''
          then (case d1_exec P INIT_SQL s1 of
                  (Inl err, s2) \<Rightarrow> (Inl err, s2)
                | (Inr u, s2) \<Rightarrow> d1_all P SelectChains s2)
          else (Inl msg, s1))"

text \<open>
  The \<^verbatim>\<open>forEach\<close> over the latest versions: the entries of \<^verbatim>\<open>versionMap\<close> in the order
  they are set. \<^verbatim>\<open>versionMap.get(k)\<close> is the entry set last for the key.
\<close>

fun parse_versions :: "'s platform \<Rightarrow> row list \<Rightarrow> string + (jsval \<times> jsval) list" where
  "parse_versions P [] = Inr []"
| "parse_versions P (v # vs) =
     (case JSON_parse_value P (js_or (row_field v ''modules'') (Str ''[]'')) of
        Inl err \<Rightarrow> Inl err
      | Inr modules \<Rightarrow>
          (case JSON_parse_value P (js_or (row_field v ''params'') (Str ''{}'')) of
             Inl err \<Rightarrow> Inl err
           | Inr params \<Rightarrow>
               (case parse_versions P vs of
                  Inl err \<Rightarrow> Inl err
                | Inr rest \<Rightarrow>
                    (let v' = obj_set (obj_set v ''modules'' modules) ''params'' params
                     in Inr ((row_field v' ''chain_id'', Obj v') # rest)))))"

definition versionMap_get :: "(jsval \<times> jsval) list \<Rightarrow> jsval \<Rightarrow> jsval" where
  "versionMap_get versionMap k =
     (case map_of (rev versionMap) k of None \<Rightarrow> Undefined | Some v \<Rightarrow> v)"

fun attach_versions ::
  "'s platform \<Rightarrow> (jsval \<times> jsval) list \<Rightarrow> row list \<Rightarrow> string + jsval list" where
  "attach_versions P versionMap [] = Inr []"
| "attach_versions P versionMap (c # cs) =
     (case JSON_parse_value P (js_or (row_field c ''tags'') (Str ''[]'')) of
        Inl err \<Rightarrow> Inl err
      | Inr tags \<Rightarrow>
          (case attach_versions P versionMap cs of
             Inl err \<Rightarrow> Inl err
           | Inr rest \<Rightarrow>
               Inr (Obj (obj_set (obj_set c ''tags'' tags) ''latestVersion''
                           (js_or (versionMap_get versionMap (row_field c ''id'')) Null))
                    # rest)))"

definition listChains :: "'s platform \<Rightarrow> 's \<Rightarrow> (string + response) \<times> 's" where
  "listChains P s =
     (case listChains_query P s of
        (Inl err, s1) \<Rightarrow> (Inl err, s1)
      | (Inr chain_rows, s1) \<Rightarrow>
          (case d1_all P SelectLatestVersions s1 of
             (Inl err, s2) \<Rightarrow> (Inl err, s2)
           | (Inr versionsResult, s2) \<Rightarrow>
               (case parse_versions P versionsResult of
                  Inl err \<Rightarrow> (Inl err, s2)
                | Inr versionMap \<Rightarrow>
                    (case attach_versions P versionMap chain_rows of
                       Inl err \<Rightarrow> (Inl err, s2)
                     | Inr data \<Rightarrow> (Inr (json P (Arr data) 200), s2)))))"

text \<open>
  Lines 191 to 218: \<^verbatim>\<open>POST /api/chains\<close>. The name of the default module is the two
  characters of the source, in UTF-8.
\<close>

definition defaultModules :: "runtime \<Rightarrow> jsval" where
  "defaultModules rt =
     Arr [Obj [(''id'', Str (randomUUID rt 2)),
               (''name'', Str [CHR 0xE5, CHR 0x85, CHR 0x89, CHR 0xE7, CHR 0x85, CHR 0xA7]),
               (''content'', Str ''cinematic lighting''),
               (''isActive'', Bool True)]]"

definition defaultParams_json :: jsval where
  "defaultParams_json =
     Obj [(''width'', Num 832), (''height'', Num 1216), (''steps'', Num 28),
          (''scale'', Num 5), (''sampler'', Str ''k_euler_ancestral'')]"

definition createChain ::
  "'s platform \<Rightarrow> runtime \<Rightarrow> string + jsval \<Rightarrow> 's \<Rightarrow> (string + response) \<times> 's" where
  "createChain P rt body_json s =
     (case body_json of
        Inl err \<Rightarrow> (Inl err, s)
      | Inr body \<Rightarrow>
          (case get_prop body ''name'' of
             None \<Rightarrow> (Inl TypeError, s)
           | Some name \<Rightarrow>
               (let description = js_prop body ''description'';
                    new_id = randomUUID rt 0;
                    now = Date_now rt 0;
                    ins = InsertChain new_id name description ''[]'' now now
                in case (case d1_run P ins s of
                           (Inr u, s1) \<Rightarrow> (Inr u, s1)
                         | (Inl msg, s1) \<Rightarrow>
                             if str_includes msg ''no such table''
                                \<or> str_includes msg ''object not found''
                             then (case d1_exec P INIT_SQL s1 of
                                     (Inl err, s2) \<Rightarrow> (Inl err, s2)
                                   | (Inr u, s2) \<Rightarrow> d1_run P ins s2)
                             else (Inl msg, s1)) of
                     (Inl err, s3) \<Rightarrow> (Inl err, s3)
                   | (Inr u, s3) \<Rightarrow>
                       (case d1_run P
                               (InsertVersion (randomUUID rt 1) new_id 1
                                  (Str ''masterpiece, best quality, {character}'')
                                  (Str ''lowres, bad anatomy'')
                                  (JSON_stringify P (defaultModules rt))
                                  (JSON_stringify P defaultParams_json) now) s3 of
                          (Inl err, s4) \<Rightarrow> (Inl err, s4)
                        | (Inr u', s4) \<Rightarrow>
                            (Inr (json P (Obj [(''id'', Str new_id)]) 200), s4)))))"

text \<open>
  Lines 220 to 237: \<^verbatim>\<open>PUT /api/chains/{id}\<close>. \<open>fields\<close> is the array of the source; the
  values it pushes are the arguments of the statement.
\<close>

definition updateChainMeta ::
  "'s platform \<Rightarrow> runtime \<Rightarrow> string \<Rightarrow> string + jsval \<Rightarrow> 's \<Rightarrow> (string + response) \<times> 's" where
  "updateChainMeta P rt chain_id body_json s =
     (case body_json of
        Inl err \<Rightarrow> (Inl err, s)
      | Inr updates \<Rightarrow>
          (case get_prop updates ''name'' of
             None \<Rightarrow> (Inl TypeError, s)
           | Some name \<Rightarrow>
               (let description = js_prop updates ''description'';
                    previewImage = js_prop updates ''previewImage'';
                    fields =
                      (if name \<noteq> Undefined then [''name = ?''] else [])
                      @ (if description \<noteq> Undefined then [''description = ?''] else [])
                      @ (if previewImage \<noteq> Undefined then [''preview_image = ?''] else [])
                in if length fields > 0
                   then (case d1_run P
                                (UpdateChain
                                   (if name \<noteq> Undefined then Some name else None)
                                   (if description \<noteq> Undefined then Some description else None)
                                   (if previewImage \<noteq> Undefined then Some previewImage else None)
                                   (Date_now rt 0) chain_id) s of
                           (Inl err, s1) \<Rightarrow> (Inl err, s1)
                         | (Inr u, s1) \<Rightarrow> (Inr (success P), s1))
                   else (Inr (success P), s))))"

text \<open>Lines 239 to 243: \<^verbatim>\<open>DELETE /api/chains/{id}\<close>.\<close>

definition deleteChain :: "'s platform \<Rightarrow> string \<Rightarrow> 's \<Rightarrow> (string + response) \<times> 's" where
  "deleteChain P chain_id s =
     (case d1_run P (DeleteChain chain_id) s of
        (Inl err, s1) \<Rightarrow> (Inl err, s1)
      | (Inr u, s1) \<Rightarrow> (Inr (success P), s1))"

text \<open>
  Lines 246 to 272: \<^verbatim>\<open>POST /api/chains/{id}/versions\<close>. \<open>nextVer\<close> is
  \<^verbatim>\<open>((maxVerResult?.max_v) || 0) + 1\<close>.
\<close>

definition nextVer :: "int option option \<Rightarrow> int" where
  "nextVer maxVerResult =
     (case (case maxVerResult of None \<Rightarrow> None | Some r \<Rightarrow> r) of
        None \<Rightarrow> 0
      | Some max_v \<Rightarrow> if max_v \<noteq> 0 then max_v else 0) + 1"

definition createVersion ::
  "'s platform \<Rightarrow> runtime \<Rightarrow> string \<Rightarrow> string + jsval \<Rightarrow> 's \<Rightarrow> (string + response) \<times> 's" where
  "createVersion P rt chainId body_json s =
     (case body_json of
        Inl err \<Rightarrow> (Inl err, s)
      | Inr body \<Rightarrow>
          (case d1_first P (SelectMaxVersion chainId) s of
             (Inl err, s1) \<Rightarrow> (Inl err, s1)
           | (Inr maxVerResult, s1) \<Rightarrow>
               (let newId = randomUUID rt 0 in
                case get_prop body ''basePrompt'' of
                  None \<Rightarrow> (Inl TypeError, s1)
                | Some basePrompt \<Rightarrow>
                    (case d1_run P
                            (InsertVersion newId chainId (nextVer maxVerResult)
                               (js_or basePrompt (Str []))
                               (js_or (js_prop body ''negativePrompt'') (Str []))
                               (JSON_stringify P (js_or (js_prop body ''modules'') (Arr [])))
                               (JSON_stringify P (js_or (js_prop body ''params'') (Obj [])))
                               (Date_now rt 0)) s1 of
                       (Inl err, s2) \<Rightarrow> (Inl err, s2)
                     | (Inr u, s2) \<Rightarrow>
                         (case d1_run P (TouchChain (Date_now rt 1) chainId) s2 of
                            (Inl err, s3) \<Rightarrow> (Inl err, s3)
                          | (Inr u', s3) \<Rightarrow>
                              (Inr (json P (Obj [(''id'', Str newId),
                                                 (''version'', Num (of_int (nextVer maxVerResult)))])
                                      200), s3))))))"

text \<open>Lines 275 to 304: the artists.\<close>

definition listArtists :: "'s platform \<Rightarrow> 's \<Rightarrow> (string + response) \<times> 's" where
  "listArtists P s =
     (case d1_all P SelectArtists s of
        (Inr results, s1) \<Rightarrow> (Inr (json P (Arr (map Obj results)) 200), s1)
      | (Inl msg, s1) \<Rightarrow>
          if str_includes msg ''no such table''
          then (case d1_exec P INIT_SQL s1 of
                  (Inl err, s2) \<Rightarrow> (Inl err, s2)
                | (Inr u, s2) \<Rightarrow> (Inr (json P (Arr []) 200), s2))
          else (Inl msg, s1))"

definition upsertArtist ::
  "'s platform \<Rightarrow> string + jsval \<Rightarrow> 's \<Rightarrow> (string + response) \<times> 's" where
  "upsertArtist P body_json s =
     (case body_json of
        Inl err \<Rightarrow> (Inl err, s)
      | Inr body \<Rightarrow>
          (case get_prop body ''id'' of
             None \<Rightarrow> (Inl TypeError, s)
           | Some artist_id \<Rightarrow>
               (let ins = UpsertArtist artist_id (js_prop body ''name'') (js_prop body ''imageUrl'')
                in case d1_run P ins s of
                     (Inr u, s1) \<Rightarrow> (Inr (success P), s1)
                   | (Inl msg, s1) \<Rightarrow>
                       if str_includes msg ''no such table''
                       then (case d1_exec P INIT_SQL s1 of
                               (Inl err, s2) \<Rightarrow> (Inl err, s2)
                             | (Inr u, s2) \<Rightarrow>
                                 (case d1_run P ins s2 of
                                    (Inl err, s3) \<Rightarrow> (Inl err, s3)
                                  | (Inr u', s3) \<Rightarrow> (Inr (success P), s3)))
                       else (Inl msg, s1))))"

definition deleteArtist :: "'s platform \<Rightarrow> string \<Rightarrow> 's \<Rightarrow> (string + response) \<times> 's" where
  "deleteArtist P artist_id s =
     (case d1_run P (DeleteArtist artist_id) s of
        (Inl err, s1) \<Rightarrow> (Inl err, s1)
      | (Inr u, s1) \<Rightarrow> (Inr (success P), s1))"

text \<open>Lines 307 to 336: the inspirations.\<close>

definition listInspirations :: "'s platform \<Rightarrow> 's \<Rightarrow> (string + response) \<times> 's" where
  "listInspirations P s =
     (case d1_all P SelectInspirations s of
        (Inr results, s1) \<Rightarrow> (Inr (json P (Arr (map Obj results)) 200), s1)
      | (Inl msg, s1) \<Rightarrow>
          if str_includes msg ''no such table''
          then (case d1_exec P INIT_SQL s1 of
                  (Inl err, s2) \<Rightarrow> (Inl err, s2)
                | (Inr u, s2) \<Rightarrow> (Inr (json P (Arr []) 200), s2))
          else (Inl msg, s1))"

definition upsertInspiration ::
  "'s platform \<Rightarrow> string + jsval \<Rightarrow> 's \<Rightarrow> (string + response) \<times> 's" where
  "upsertInspiration P body_json s =
     (case body_json of
        Inl err \<Rightarrow> (Inl err, s)
      | Inr body \<Rightarrow>
          (case get_prop body ''id'' of
             None \<Rightarrow> (Inl TypeError, s)
           | Some insp_id \<Rightarrow>
               (let ins = UpsertInspiration insp_id (js_prop body ''title'')
                               (js_prop body ''imageUrl'') (js_prop body ''prompt'')
                               (js_prop body ''createdAt'')
                in case d1_run P ins s of
                     (Inr u, s1) \<Rightarrow> (Inr (success P), s1)
                   | (Inl msg, s1) \<Rightarrow>
                       if str_includes msg ''no such table''
                       then (case d1_exec P INIT_SQL s1 of
                               (Inl err, s2) \<Rightarrow> (Inl err, s2)
                             | (Inr u, s2) \<Rightarrow>
                                 (case d1_run P ins s2 of
                                    (Inl err, s3) \<Rightarrow> (Inl err, s3)
                                  | (Inr u', s3) \<Rightarrow> (Inr (success P), s3)))
                       else (Inl msg, s1))))"

definition deleteInspiration :: "'s platform \<Rightarrow> string \<Rightarrow> 's \<Rightarrow> (string + response) \<times> 's" where
  "deleteInspiration P insp_id s =
     (case d1_run P (DeleteInspiration insp_id) s of
        (Inl err, s1) \<Rightarrow> (Inl err, s1)
      | (Inr u, s1) \<Rightarrow> (Inr (success P), s1))"

subsection \<open>Dispatch\<close>

text \<open>
  The two shapes of regular expression that the routes match a path against:
  \<open>match_id pre path\<close> is the group of \<^verbatim>\<open>^pre([^\/]+)$\<close>, and
  \<open>match_versions path\<close> is the group of \<^verbatim>\<open>^\/api\/chains\/([^\/]+)\/versions$\<close>
  (the group is the longest run without a slash, as no shorter one can be followed by a
  slash).
\<close>

definition match_id :: "string \<Rightarrow> string \<Rightarrow> string option" where
  "match_id pre path =
     (if prefix pre path
      then (let rest = drop (length pre) path
            in if rest \<noteq> [] \<and> CHR ''/'' \<notin> set rest then Some rest else None)
      else None)"

definition match_versions :: "string \<Rightarrow> string option" where
  "match_versions path =
     (if prefix ''/api/chains/'' path
      then (let rest = drop (length ''/api/chains/'') path;
                grp = takeWhile (\<lambda>c. c \<noteq> CHR ''/'') rest
            in if grp \<noteq> [] \<and> dropWhile (\<lambda>c. c \<noteq> CHR ''/'') rest = ''/versions''
               then Some grp else None)
      else None)"

text \<open>Line 100: the routes that the check of the \<^verbatim>\<open>X-Master-Key\<close> header guards.\<close>

definition admin_route :: "string \<Rightarrow> string \<Rightarrow> bool" where
  "admin_route method path =
     (method \<in> set [''PUT'', ''DELETE'']
      \<or> (startsWith path ''/api/artists'' \<and> method = ''POST'')
      \<or> (startsWith path ''/api/inspirations'' \<and> method = ''POST''))"

text \<open>Lines 246 to 343: the routes after the chains.\<close>

definition fetch_versions_onwards ::
  "'s platform \<Rightarrow> runtime \<Rightarrow> request \<Rightarrow> 's \<Rightarrow> (string + response) \<times> 's" where
  "fetch_versions_onwards P rt req s =
     (let path = rq_path req; method = rq_method req in
      if match_versions path \<noteq> None \<and> method = ''POST''
      then (case match_versions path of
              None \<Rightarrow> (Inr (error P ''Invalid ID'' 500), s)
            | Some chainId \<Rightarrow> createVersion P rt chainId (rq_json req) s)
      else if path = ''/api/artists'' \<and> method = ''GET'' then listArtists P s
      else if path = ''/api/artists'' \<and> method = ''POST'' then upsertArtist P (rq_json req) s
      else if match_id ''/api/artists/'' path \<noteq> None \<and> method = ''DELETE''
      then (case match_id ''/api/artists/'' path of
              None \<Rightarrow> (Inl TypeError, s)
            | Some artist_id \<Rightarrow> deleteArtist P artist_id s)
      else if path = ''/api/inspirations'' \<and> method = ''GET'' then listInspirations P s
      else if path = ''/api/inspirations'' \<and> method = ''POST''
      then upsertInspiration P (rq_json req) s
      else if match_id ''/api/inspirations/'' path \<noteq> None \<and> method = ''DELETE''
      then (case match_id ''/api/inspirations/'' path of
              None \<Rightarrow> (Inl TypeError, s)
            | Some insp_id \<Rightarrow> deleteInspiration P insp_id s)
      else if startsWith path ''/api/'' then (Inr (error P ''Not Found'' 404), s)
      else (Inr AssetsResponse, s))"

text \<open>Lines 150 to 243: the routes of the chains, once the database binding is there.\<close>

definition fetch_db_routes ::
  "'s platform \<Rightarrow> runtime \<Rightarrow> request \<Rightarrow> 's \<Rightarrow> (string + response) \<times> 's" where
  "fetch_db_routes P rt req s =
     (let path = rq_path req; method = rq_method req in
      if path = ''/api/chains'' \<and> method = ''GET'' then listChains P s
      else if path = ''/api/chains'' \<and> method = ''POST'' then createChain P rt (rq_json req) s
      else (case match_id ''/api/chains/'' path of
              Some chain_id \<Rightarrow>
                if method = ''PUT'' then updateChainMeta P rt chain_id (rq_json req) s
                else if method = ''DELETE'' then deleteChain P chain_id s
                else fetch_versions_onwards P rt req s
            | None \<Rightarrow> fetch_versions_onwards P rt req s))"

text \<open>Lines 139 and 145: the two messages of the database guard.\<close>

definition not_configured :: string where
  \<open>not_configured = ''Database not configured. Please bind a D1 database named "DB".''\<close>

definition configuration_error :: string where
  \<open>configuration_error =
     ''Configuration Error: "DB" variable is a string/invalid. Do NOT add "DB" to [vars] in wrangler.toml or Dashboard Environment Variables. It must be a D1 Binding only.''\<close>

text \<open>Lines 98 to 148: the body of the \<^verbatim>\<open>try\<close>, up to the database guard.\<close>

definition fetch_api ::
  "'s platform \<Rightarrow> env \<Rightarrow> runtime \<Rightarrow> request \<Rightarrow> 's \<Rightarrow> (string + response) \<times> 's" where
  "fetch_api P e rt req s =
     (let path = rq_path req; method = rq_method req in
      if admin_route method path \<and> rq_master_key req \<noteq> Some (MASTER_KEY e)
      then (Inr (error P ''Unauthorized'' 401), s)
      else if path = ''/api/verify-key'' \<and> method = ''POST'' then verify_key P e (rq_json req) s
      else if path = ''/api/generate'' \<and> method = ''POST'' then generate P e (rq_json req) s
      else (case DB e of
              DB_undefined \<Rightarrow>
                (Inr (error P not_configured 503), s)
            | DB_string v \<Rightarrow>
                if v = []
                then (Inr (error P not_configured 503), s)
                else (Inr (error P configuration_error 500), s)
            | DB_other \<Rightarrow>
                (Inr (error P configuration_error 500), s)
            | DB_d1 \<Rightarrow> fetch_db_routes P rt req s))"

text \<open>Lines 83 to 96 and 345 to 347: the whole handler.\<close>

definition catch_500 :: "'s platform \<Rightarrow> (string + response) \<times> 's \<Rightarrow> response \<times> 's" where
  "catch_500 P outcome =
     (case outcome of
        (Inl msg, s') \<Rightarrow> (error P msg 500, s')
      | (Inr res, s') \<Rightarrow> (res, s'))"

definition fetch ::
  "'s platform \<Rightarrow> env \<Rightarrow> runtime \<Rightarrow> request \<Rightarrow> 's \<Rightarrow> response \<times> 's" where
  "fetch P e rt req s =
     (if \<not> startsWith (rq_path req) ''/api/'' then (AssetsResponse, s)
      else if rq_method req = ''OPTIONS'' then (Response 200 None Empty, s)
      else catch_500 P (fetch_api P e rt req s))"

text \<open>Requests served one after the other, each with its own identifiers and clock.\<close>

fun fetch_all ::
  "'s platform \<Rightarrow> env \<Rightarrow> (runtime \<times> request) list \<Rightarrow> 's \<Rightarrow> response list \<times> 's" where
  "fetch_all P e [] s = ([], s)"
| "fetch_all P e ((rt, req) # rest) s =
     (case fetch P e rt req s of
        (res, s1) \<Rightarrow> (case fetch_all P e rest s1 of (ress, s2) \<Rightarrow> (res # ress, s2)))"

subsection \<open>Recording the calls to the platform\<close>

text \<open>
  \<open>traced P\<close> is the platform \<open>P\<close> with a log: it answers as \<open>P\<close> does and appends every
  call of the database and of the provider to the log.
\<close>

datatype call =
    Call_all stmt
  | Call_first stmt
  | Call_run stmt
  | Call_exec "schema_stmt list"
  | Call_nai string string

definition traced :: "'s platform \<Rightarrow> ('s \<times> call list) platform" where
  "traced P =
     \<lparr> d1_all = (\<lambda>q (s, lg). case d1_all P q s of (r, s') \<Rightarrow> (r, (s', lg @ [Call_all q]))),
       d1_first = (\<lambda>q (s, lg). case d1_first P q s of (r, s') \<Rightarrow> (r, (s', lg @ [Call_first q]))),
       d1_run = (\<lambda>q (s, lg). case d1_run P q s of (r, s') \<Rightarrow> (r, (s', lg @ [Call_run q]))),
       d1_exec = (\<lambda>q (s, lg). case d1_exec P q s of (r, s') \<Rightarrow> (r, (s', lg @ [Call_exec q]))),
       nai_fetch = (\<lambda>a b (s, lg).
          case nai_fetch P a b s of (r, s') \<Rightarrow> (r, (s', lg @ [Call_nai a b]))),
       JSON_parse = JSON_parse P,
       JSON_stringify = JSON_stringify P \<rparr>"


section \<open>The store behind the database binding\<close>

text \<open>
  The tables that \<^verbatim>\<open>INIT_SQL\<close> declares, as lists of rows in the order of insertion; a
  table that does not exist is \<open>None\<close>. A column that the worker always binds to a text
  or a whole number of its own has that type; a column bound to a value of a request body
  holds a value. The store enforces what the schema declares: the primary keys, the
  \<^verbatim>\<open>NOT NULL\<close> columns and the foreign key of \<^verbatim>\<open>versions.chain_id\<close> with its cascade
  (the binding enforces foreign keys). Column affinity is not modelled: a value is stored as
  it is bound.
\<close>

record chain_row =
  ch_id :: string
  ch_name :: jsval
  ch_description :: jsval
  ch_tags :: string
  ch_preview_image :: jsval
  ch_created_at :: int
  ch_updated_at :: int

record version_row =
  v_id :: string
  v_chain_id :: string
  v_version :: int
  v_base_prompt :: jsval
  v_negative_prompt :: jsval
  v_modules :: string
  v_params :: string
  v_created_at :: int

record artist_row =
  a_id :: jsval
  a_name :: jsval
  a_image_url :: jsval

record inspiration_row =
  i_id :: jsval
  i_title :: jsval
  i_image_url :: jsval
  i_prompt :: jsval
  i_created_at :: jsval

record tables =
  t_chains :: "chain_row list option"
  t_versions :: "version_row list option"
  t_artists :: "artist_row list option"
  t_inspirations :: "inspiration_row list option"

text \<open>
  \<^verbatim>\<open>bind\<close> accepts null, numbers, texts and booleans (stored as 1 and 0) and throws for
  \<^verbatim>\<open>undefined\<close>, arrays and objects.
\<close>

fun d1_bind :: "jsval \<Rightarrow> jsval option" where
  "d1_bind Undefined = None"
| "d1_bind Null = Some Null"
| "d1_bind (Bool b) = Some (Num (if b then 1 else 0))"
| "d1_bind (Num n) = Some (Num n)"
| "d1_bind (Str t) = Some (Str t)"
| "d1_bind (Arr vs) = None"
| "d1_bind (Obj fs) = None"

fun d1_bind_all :: "jsval list \<Rightarrow> jsval list option" where
  "d1_bind_all [] = Some []"
| "d1_bind_all (v # vs) =
     (case d1_bind v of
        None \<Rightarrow> None
      | Some b \<Rightarrow> (case d1_bind_all vs of None \<Rightarrow> None | Some bs \<Rightarrow> Some (b # bs)))"

definition type_error :: string where
  "type_error = ''D1_TYPE_ERROR: Type is not supported''"

definition no_such_table :: "string \<Rightarrow> string" where
  "no_such_table name = ''D1_ERROR: no such table: '' @ name"

definition not_null_failed :: "string \<Rightarrow> string" where
  "not_null_failed column = ''D1_ERROR: NOT NULL constraint failed: '' @ column"

definition unique_failed :: "string \<Rightarrow> string" where
  "unique_failed column = ''D1_ERROR: UNIQUE constraint failed: '' @ column"

definition foreign_key_failed :: string where
  "foreign_key_failed = ''D1_ERROR: FOREIGN KEY constraint failed''"

definition unsupported :: string where
  "unsupported = ''D1_ERROR: statement not supported''"

text \<open>The order of SQL values: null, then the numbers, then the texts by their bytes.\<close>

fun sql_key :: "jsval \<Rightarrow> nat \<times> real \<times> string" where
  "sql_key (Num n) = (1, n, [])"
| "sql_key (Str t) = (2, 0, t)"
| "sql_key v = (0, 0, [])"

subsection \<open>The statements that write\<close>

text \<open>
  The values of an \<^verbatim>\<open>UPDATE\<close>: a column that is not set has none; \<open>bind_opt\<close> binds
  the value of one that is, and \<open>set_opt\<close> is the column after the statement.
\<close>

definition bind_opt :: "jsval option \<Rightarrow> jsval option option" where
  "bind_opt v =
     (case v of
        None \<Rightarrow> Some None
      | Some x \<Rightarrow> (case d1_bind x of None \<Rightarrow> None | Some b \<Rightarrow> Some (Some b)))"

definition set_opt :: "jsval option \<Rightarrow> jsval \<Rightarrow> jsval" where
  "set_opt new old = (case new of None \<Rightarrow> old | Some v \<Rightarrow> v)"

fun store_run :: "stmt \<Rightarrow> tables \<Rightarrow> (string + unit) \<times> tables" where
  "store_run (InsertChain new_id name description tags created updated) t =
     (case d1_bind_all [name, description] of
        Some [name', description'] \<Rightarrow>
          (case t_chains t of
             None \<Rightarrow> (Inl (no_such_table ''chains''), t)
           | Some rows \<Rightarrow>
               if name' = Null then (Inl (not_null_failed ''chains.name''), t)
               else if new_id \<in> ch_id ` set rows then (Inl (unique_failed ''chains.id''), t)
               else (Inr (),
                     t\<lparr> t_chains := Some (rows @
                          [\<lparr> ch_id = new_id, ch_name = name', ch_description = description',
                             ch_tags = tags, ch_preview_image = Null, ch_created_at = created,
                             ch_updated_at = updated \<rparr>]) \<rparr>))
      | _ \<Rightarrow> (Inl type_error, t))"
| "store_run (InsertVersion new_id chain_id version base_prompt negative_prompt modules params
               created) t =
     (case d1_bind_all [base_prompt, negative_prompt] of
        Some [base_prompt', negative_prompt'] \<Rightarrow>
          (case t_versions t of
             None \<Rightarrow> (Inl (no_such_table ''versions''), t)
           | Some rows \<Rightarrow>
               (case t_chains t of
                  None \<Rightarrow> (Inl (no_such_table ''main.chains''), t)
                | Some chain_rows \<Rightarrow>
                    if new_id \<in> v_id ` set rows then (Inl (unique_failed ''versions.id''), t)
                    else if chain_id \<notin> ch_id ` set chain_rows then (Inl foreign_key_failed, t)
                    else (Inr (),
                          t\<lparr> t_versions := Some (rows @
                               [\<lparr> v_id = new_id, v_chain_id = chain_id, v_version = version,
                                  v_base_prompt = base_prompt',
                                  v_negative_prompt = negative_prompt', v_modules = modules,
                                  v_params = params, v_created_at = created \<rparr>]) \<rparr>)))
      | _ \<Rightarrow> (Inl type_error, t))"
| "store_run (UpdateChain name description preview_image updated chain_id) t =
     (case (bind_opt name, bind_opt description, bind_opt preview_image) of
        (Some name', Some description', Some preview_image') \<Rightarrow>
          (case t_chains t of
             None \<Rightarrow> (Inl (no_such_table ''chains''), t)
           | Some rows \<Rightarrow>
               if name' = Some Null \<and> chain_id \<in> ch_id ` set rows
               then (Inl (not_null_failed ''chains.name''), t)
               else (Inr (),
                     t\<lparr> t_chains := Some (map (\<lambda>r.
                          if ch_id r = chain_id
                          then r\<lparr> ch_name := set_opt name' (ch_name r),
                                  ch_description := set_opt description' (ch_description r),
                                  ch_preview_image := set_opt preview_image' (ch_preview_image r),
                                  ch_updated_at := updated \<rparr>
                          else r) rows) \<rparr>))
      | _ \<Rightarrow> (Inl type_error, t))"
| "store_run (DeleteChain chain_id) t =
     (case t_chains t of
        None \<Rightarrow> (Inl (no_such_table ''chains''), t)
      | Some rows \<Rightarrow>
          (Inr (),
           t\<lparr> t_chains := Some (filter (\<lambda>r. ch_id r \<noteq> chain_id) rows),
              t_versions := map_option (filter (\<lambda>r. v_chain_id r \<noteq> chain_id))
                              (t_versions t) \<rparr>))"
| "store_run (TouchChain updated chain_id) t =
     (case t_chains t of
        None \<Rightarrow> (Inl (no_such_table ''chains''), t)
      | Some rows \<Rightarrow>
          (Inr (),
           t\<lparr> t_chains := Some (map (\<lambda>r.
                if ch_id r = chain_id then r\<lparr> ch_updated_at := updated \<rparr> else r) rows) \<rparr>))"
| "store_run (UpsertArtist artist_id name image_url) t =
     (case d1_bind_all [artist_id, name, image_url] of
        Some [artist_id', name', image_url'] \<Rightarrow>
          (case t_artists t of
             None \<Rightarrow> (Inl (no_such_table ''artists''), t)
           | Some rows \<Rightarrow>
               if name' = Null then (Inl (not_null_failed ''artists.name''), t)
               else (Inr (),
                     t\<lparr> t_artists := Some
                          (filter (\<lambda>r. artist_id' = Null \<or> a_id r \<noteq> artist_id') rows @
                           [\<lparr> a_id = artist_id', a_name = name', a_image_url = image_url' \<rparr>]) \<rparr>))
      | _ \<Rightarrow> (Inl type_error, t))"
| "store_run (DeleteArtist artist_id) t =
     (case t_artists t of
        None \<Rightarrow> (Inl (no_such_table ''artists''), t)
      | Some rows \<Rightarrow>
          (Inr (), t\<lparr> t_artists := Some (filter (\<lambda>r. a_id r \<noteq> Str artist_id) rows) \<rparr>))"
| "store_run (UpsertInspiration insp_id title image_url prompt created) t =
     (case d1_bind_all [insp_id, title, image_url, prompt, created] of
        Some [insp_id', title', image_url', prompt', created'] \<Rightarrow>
          (case t_inspirations t of
             None \<Rightarrow> (Inl (no_such_table ''inspirations''), t)
           | Some rows \<Rightarrow>
               if title' = Null then (Inl (not_null_failed ''inspirations.title''), t)
               else (Inr (),
                     t\<lparr> t_inspirations := Some
                          (filter (\<lambda>r. insp_id' = Null \<or> i_id r \<noteq> insp_id') rows @
                           [\<lparr> i_id = insp_id', i_title = title', i_image_url = image_url',
                              i_prompt = prompt', i_created_at = created' \<rparr>]) \<rparr>))
      | _ \<Rightarrow> (Inl type_error, t))"
| "store_run (DeleteInspiration insp_id) t =
     (case t_inspirations t of
        None \<Rightarrow> (Inl (no_such_table ''inspirations''), t)
      | Some rows \<Rightarrow>
          (Inr (),
           t\<lparr> t_inspirations := Some (filter (\<lambda>r. i_id r \<noteq> Str insp_id) rows) \<rparr>))"
| "store_run q t = (Inl unsupported, t)"

subsection \<open>The queries\<close>

definition chain_object :: "chain_row \<Rightarrow> row" where
  "chain_object r =
     [(''id'', Str (ch_id r)), (''name'', ch_name r), (''description'', ch_description r),
      (''tags'', Str (ch_tags r)), (''preview_image'', ch_preview_image r),
      (''created_at'', Num (of_int (ch_created_at r))),
      (''updated_at'', Num (of_int (ch_updated_at r)))]"

definition version_object :: "version_row \<Rightarrow> row" where
  "version_object r =
     [(''id'', Str (v_id r)), (''chain_id'', Str (v_chain_id r)),
      (''version'', Num (of_int (v_version r))), (''base_prompt'', v_base_prompt r),
      (''negative_prompt'', v_negative_prompt r), (''modules'', Str (v_modules r)),
      (''params'', Str (v_params r)), (''created_at'', Num (of_int (v_created_at r)))]"

definition artist_object :: "artist_row \<Rightarrow> row" where
  "artist_object r = [(''id'', a_id r), (''name'', a_name r), (''image_url'', a_image_url r)]"

definition inspiration_object :: "inspiration_row \<Rightarrow> row" where
  "inspiration_object r =
     [(''id'', i_id r), (''title'', i_title r), (''image_url'', i_image_url r),
      (''prompt'', i_prompt r), (''created_at'', i_created_at r)]"

text \<open>The version numbers of a chain, and \<^verbatim>\<open>MAX(version)\<close> over them (null when none).\<close>

definition versions_of :: "string \<Rightarrow> version_row list \<Rightarrow> int list" where
  "versions_of chain_id rows = map v_version (filter (\<lambda>r. v_chain_id r = chain_id) rows)"

definition max_version :: "string \<Rightarrow> version_row list \<Rightarrow> int option" where
  "max_version chain_id rows =
     (case versions_of chain_id rows of
        [] \<Rightarrow> None
      | v # vs \<Rightarrow> Some (fold max vs v))"

fun store_all :: "stmt \<Rightarrow> tables \<Rightarrow> (string + row list) \<times> tables" where
  "store_all SelectChains t =
     (case t_chains t of
        None \<Rightarrow> (Inl (no_such_table ''chains''), t)
      | Some rows \<Rightarrow> (Inr (map chain_object (rev (sort_key ch_updated_at rows))), t))"
| "store_all SelectLatestVersions t =
     (case t_versions t of
        None \<Rightarrow> (Inl (no_such_table ''versions''), t)
      | Some rows \<Rightarrow>
          (Inr (map version_object
                  (filter (\<lambda>r. max_version (v_chain_id r) rows = Some (v_version r)) rows)), t))"
| "store_all SelectArtists t =
     (case t_artists t of
        None \<Rightarrow> (Inl (no_such_table ''artists''), t)
      | Some rows \<Rightarrow> (Inr (map artist_object (sort_key (\<lambda>r. sql_key (a_name r)) rows)), t))"
| "store_all SelectInspirations t =
     (case t_inspirations t of
        None \<Rightarrow> (Inl (no_such_table ''inspirations''), t)
      | Some rows \<Rightarrow>
          (Inr (map inspiration_object (rev (sort_key (\<lambda>r. sql_key (i_created_at r)) rows))),
           t))"
| "store_all q t = (Inl unsupported, t)"

fun store_first :: "stmt \<Rightarrow> tables \<Rightarrow> (string + int option option) \<times> tables" where
  "store_first (SelectMaxVersion chain_id) t =
     (case t_versions t of
        None \<Rightarrow> (Inl (no_such_table ''versions''), t)
      | Some rows \<Rightarrow> (Inr (Some (max_version chain_id rows)), t))"
| "store_first q t = (Inl unsupported, t)"

subsection \<open>Provisioning\<close>

definition create_if_missing :: "'a list option \<Rightarrow> 'a list option" where
  "create_if_missing tab = (case tab of None \<Rightarrow> Some [] | Some rows \<Rightarrow> Some rows)"

fun store_exec1 :: "schema_stmt \<Rightarrow> tables \<Rightarrow> (string + unit) \<times> tables" where
  "store_exec1 (CreateTable name) t =
     (if name = ''chains'' then (Inr (), t\<lparr> t_chains := create_if_missing (t_chains t) \<rparr>)
      else if name = ''versions''
      then (Inr (), t\<lparr> t_versions := create_if_missing (t_versions t) \<rparr>)
      else if name = ''artists'' then (Inr (), t\<lparr> t_artists := create_if_missing (t_artists t) \<rparr>)
      else if name = ''inspirations''
      then (Inr (), t\<lparr> t_inspirations := create_if_missing (t_inspirations t) \<rparr>)
      else (Inl unsupported, t))"
| "store_exec1 (CreateIndex name tab) t =
     (if tab = ''versions''
      then (case t_versions t of
              None \<Rightarrow> (Inl (no_such_table ''main.versions''), t)
            | Some rows \<Rightarrow> (Inr (), t))
      else (Inl unsupported, t))"

fun store_exec :: "schema_stmt list \<Rightarrow> tables \<Rightarrow> (string + unit) \<times> tables" where
  "store_exec [] t = (Inr (), t)"
| "store_exec (q # qs) t =
     (case store_exec1 q t of
        (Inl err, t1) \<Rightarrow> (Inl err, t1)
      | (Inr u, t1) \<Rightarrow> store_exec qs t1)"

subsection \<open>A platform on the store\<close>

text \<open>
  The store as the database of a platform, with a provider that answers every request with
  a given response. \<open>json_text\<close> is \<^verbatim>\<open>JSON.stringify\<close> on the values made of null, the
  booleans, texts without a character to escape, arrays and objects of these (a number is
  left as a mark); \<open>json_read\<close> is \<^verbatim>\<open>JSON.parse\<close> on two texts and fails on the others.
  The theorems below hold for every platform; this one serves for examples.
\<close>

fun json_text :: "jsval \<Rightarrow> string"
  and json_items :: "jsval list \<Rightarrow> string"
  and json_fields :: "(string \<times> jsval) list \<Rightarrow> string" where
  "json_text Undefined = ''undefined''"
| "json_text Null = ''null''"
| "json_text (Bool b) = (if b then ''true'' else ''false'')"
| "json_text (Num n) = ''#''"
| "json_text (Str t) = [CHR 0x22] @ t @ [CHR 0x22]"
| "json_text (Arr vs) = ''['' @ json_items vs @ '']''"
| "json_text (Obj fs) = ''{'' @ json_fields fs @ ''}''"
| "json_items [] = []"
| "json_items (v # vs) = json_text v @ (if vs = [] then [] else '','' @ json_items vs)"
| "json_fields [] = []"
| "json_fields (f # fs) =
     [CHR 0x22] @ fst f @ [CHR 0x22] @ '':'' @ json_text (snd f)
     @ (if fs = [] then [] else '','' @ json_fields fs)"

definition json_read :: "string \<Rightarrow> string + jsval" where
  "json_read t =
     (if t = ''[]'' then Inr (Arr [])
      else if t = ''{}'' then Inr (Obj [])
      else Inl ''SyntaxError: Unexpected token'')"

definition store_platform :: "nai_response \<Rightarrow> tables platform" where
  "store_platform answer =
     \<lparr> d1_all = store_all, d1_first = store_first, d1_run = store_run, d1_exec = store_exec,
       nai_fetch = (\<lambda>auth body t. (Inr answer, t)),
       JSON_parse = json_read, JSON_stringify = json_text \<rparr>"



text \<open>
  An environment with the database bound, and the identifiers and clock of an invocation:
  identifiers that start with a tag of the invocation, and a clock that starts at a base.
\<close>

definition bound_env :: env where
  "bound_env = \<lparr> NAI_API_KEY = ''pst-key'', MASTER_KEY = ''secret'', DB = DB_d1 \<rparr>"

definition runtime_of :: "string \<Rightarrow> int \<Rightarrow> runtime" where
  "runtime_of tag base =
     \<lparr> randomUUID = (\<lambda>k. tag @ replicate k CHR ''+''),
       Date_now = (\<lambda>k. base + int k) \<rparr>"

definition provisioned :: tables where
  "provisioned =
     \<lparr> t_chains = Some [], t_versions = Some [], t_artists = Some [],
       t_inspirations = Some [] \<rparr>"

definition rate_limited :: nai_response where
  "rate_limited = \<lparr> nr_status = 429, nr_body = ''Too many requests'' \<rparr>"


text \<open>
  The request that creates a version of chain \<open>cid\<close> with a body, and the bodies whose
  two prompts are texts (or missing): the values the two text columns take as they are.
\<close>

definition version_request :: "string \<Rightarrow> runtime \<times> jsval \<Rightarrow> runtime \<times> request" where
  "version_request cid call =
     (fst call,
      \<lparr> rq_method = ''POST'', rq_path = ''/api/chains/'' @ cid @ ''/versions'',
        rq_master_key = None, rq_json = Inr (snd call) \<rparr>)"

definition text_or_absent :: "jsval \<Rightarrow> bool" where
  "text_or_absent v =
     (case v of Undefined \<Rightarrow> True | Null \<Rightarrow> True | Str x \<Rightarrow> True | Bool x \<Rightarrow> False
      | Num x \<Rightarrow> False | Arr x \<Rightarrow> False | Obj x \<Rightarrow> False)"

definition version_body :: "jsval \<Rightarrow> bool" where
  "version_body b =
     (b \<noteq> Null \<and> b \<noteq> Undefined \<and> text_or_absent (js_prop b ''basePrompt'')
      \<and> text_or_absent (js_prop b ''negativePrompt''))"

text \<open>A store with one chain and its first version.\<close>

definition one_chain :: tables where
  "one_chain =
     \<lparr> t_chains = Some [\<lparr> ch_id = ''c1'', ch_name = Str ''Portraits'',
                          ch_description = Str ''studio light'', ch_tags = ''[]'',
                          ch_preview_image = Null, ch_created_at = 10, ch_updated_at = 10 \<rparr>],
       t_versions = Some [\<lparr> v_id = ''v1'', v_chain_id = ''c1'', v_version = 1,
                            v_base_prompt = Str ''masterpiece, best quality, {character}'',
                            v_negative_prompt = Str ''lowres, bad anatomy'',
                            v_modules = ''[]'', v_params = ''{}'', v_created_at = 10 \<rparr>],
       t_artists = Some [], t_inspirations = Some [] \<rparr>"


section \<open>The retry of the specification\<close>




section \<open>Properties of generateImage\<close>

lemma str_includes_sublist: "str_includes s n = sublist n s"
  by (induction s) (auto simp: sublist_Cons_right)

text \<open>
  C3. The payload has no seed field when \<^verbatim>\<open>params.seed\<close> is absent or is the sentinel
  \<open>-1\<close>; any other seed, zero included, is in the payload as it is.
\<close>

theorem payload_seed_policy:
  "(np_seed params = None \<or> np_seed params = Some (- 1) \<longrightarrow>
      pp_seed (pl_parameters (generateImage_payload Q U prompt negative params)) = None)
   \<and> (\<forall>s. np_seed params = Some s \<and> s \<noteq> - 1 \<longrightarrow>
      pp_seed (pl_parameters (generateImage_payload Q U prompt negative params)) = Some s)"
  by (auto simp: generateImage_payload_def sanitize_seed_def Let_def)

theorem payload_seed_policy_witness:
  "pp_seed (pl_parameters (generateImage_payload ''best quality'' (\<lambda>i. None) ''1girl'' ''lowres''
        (defaultParams\<lparr> np_seed := Some (- 1) \<rparr>))) = None
   \<and> pp_seed (pl_parameters (generateImage_payload ''best quality'' (\<lambda>i. None) ''1girl'' ''lowres''
        (defaultParams\<lparr> np_seed := Some 0 \<rparr>))) = Some 0"
  using payload_seed_policy [of "defaultParams\<lparr> np_seed := Some (- 1) \<rparr>"
          "''best quality''" "\<lambda>i. None" "''1girl''" "''lowres''"]
        payload_seed_policy [of "defaultParams\<lparr> np_seed := Some 0 \<rparr>"
          "''best quality''" "\<lambda>i. None" "''1girl''" "''lowres''"]
  by simp

text \<open>
  C5. With \<^verbatim>\<open>params.qualityToggle\<close> explicitly false the payload's prompt is the input
  prompt; otherwise (the toggle omitted or true) it is the input prompt followed by one
  copy of the quality tags. The structured caption carries the same text.
\<close>

theorem payload_quality_suffix:
  "(np_qualityToggle params = Some False \<longrightarrow>
      pl_input (generateImage_payload Q U prompt negative params) = prompt
      \<and> vp_base_caption (pp_v4_prompt (pl_parameters
           (generateImage_payload Q U prompt negative params))) = prompt)
   \<and> (np_qualityToggle params \<noteq> Some False \<longrightarrow>
      pl_input (generateImage_payload Q U prompt negative params) = prompt @ Q
      \<and> vp_base_caption (pp_v4_prompt (pl_parameters
           (generateImage_payload Q U prompt negative params))) = prompt @ Q)"
  by (cases "np_qualityToggle params") (auto simp: generateImage_payload_def Let_def)

theorem payload_quality_suffix_witness:
  "pl_input (generateImage_payload '', best quality'' (\<lambda>i. None) ''1girl'' ''lowres''
        (defaultParams\<lparr> np_qualityToggle := Some False \<rparr>)) = ''1girl''
   \<and> pl_input (generateImage_payload '', best quality'' (\<lambda>i. None) ''1girl'' ''lowres''
        defaultParams) = ''1girl, best quality''"
  using payload_quality_suffix [of "defaultParams\<lparr> np_qualityToggle := Some False \<rparr>"
          "'', best quality''" "\<lambda>i. None" "''1girl''" "''lowres''"]
        payload_quality_suffix [of defaultParams
          "'', best quality''" "\<lambda>i. None" "''1girl''" "''lowres''"]
  by (simp add: defaultParams_def)

text \<open>
  C6. For a non-empty \<^verbatim>\<open>params.characters\<close> of length n the payload has a positive and a
  negative caption list of length n, in the order of the input: entry i of the positive
  list has character i's prompt, entry i of the negative list has its negative prompt (the
  empty string when there is none), and both have the one centre (x, y) of character i.
  With no characters (the field absent, or an empty list) both lists are empty.
\<close>

theorem payload_character_captions:
  "(\<forall>cs. np_characters params = Some cs \<and> cs \<noteq> [] \<longrightarrow>
      length (vp_char_captions (pp_v4_prompt (pl_parameters
          (generateImage_payload Q U prompt negative params)))) = length cs
      \<and> length (vn_char_captions (pp_v4_negative_prompt (pl_parameters
          (generateImage_payload Q U prompt negative params)))) = length cs
      \<and> (\<forall>i < length cs.
           char_caption (vp_char_captions (pp_v4_prompt (pl_parameters
               (generateImage_payload Q U prompt negative params))) ! i) = c_prompt (cs ! i)
         \<and> char_caption (vn_char_captions (pp_v4_negative_prompt (pl_parameters
               (generateImage_payload Q U prompt negative params))) ! i)
             = (case c_negativePrompt (cs ! i) of None \<Rightarrow> [] | Some s \<Rightarrow> s)
         \<and> centers (vp_char_captions (pp_v4_prompt (pl_parameters
               (generateImage_payload Q U prompt negative params))) ! i)
             = [\<lparr> center_x = c_x (cs ! i), center_y = c_y (cs ! i) \<rparr>]
         \<and> centers (vn_char_captions (pp_v4_negative_prompt (pl_parameters
               (generateImage_payload Q U prompt negative params))) ! i)
             = centers (vp_char_captions (pp_v4_prompt (pl_parameters
               (generateImage_payload Q U prompt negative params))) ! i)))
   \<and> (np_characters params = None \<or> np_characters params = Some [] \<longrightarrow>
        vp_char_captions (pp_v4_prompt (pl_parameters
          (generateImage_payload Q U prompt negative params))) = []
      \<and> vn_char_captions (pp_v4_negative_prompt (pl_parameters
          (generateImage_payload Q U prompt negative params))) = [])"
  by (auto simp: generateImage_payload_def Let_def charCaptions_def charNegativeCaptions_def
        hasCharacters_def split: option.splits)

theorem payload_character_captions_witness:
  "length (vp_char_captions (pp_v4_prompt (pl_parameters
       (generateImage_payload ''q'' (\<lambda>i. None) ''2girls'' ''lowres''
          (defaultParams\<lparr> np_characters := Some two_characters \<rparr>))))) = 2
   \<and> char_caption (vp_char_captions (pp_v4_prompt (pl_parameters
       (generateImage_payload ''q'' (\<lambda>i. None) ''2girls'' ''lowres''
          (defaultParams\<lparr> np_characters := Some two_characters \<rparr>)))) ! 1) = ''boy''
   \<and> char_caption (vn_char_captions (pp_v4_negative_prompt (pl_parameters
       (generateImage_payload ''q'' (\<lambda>i. None) ''2girls'' ''lowres''
          (defaultParams\<lparr> np_characters := Some two_characters \<rparr>)))) ! 1) = []
   \<and> vp_char_captions (pp_v4_prompt (pl_parameters
       (generateImage_payload ''q'' (\<lambda>i. None) ''2girls'' ''lowres'' defaultParams))) = []"
proof -
  let ?p = "defaultParams\<lparr> np_characters := Some two_characters \<rparr>"
  have cs: "np_characters ?p = Some two_characters \<and> two_characters \<noteq> []"
    by (simp add: two_characters_def)
  have len: "length two_characters = 2" and i: "(1::nat) < length two_characters"
    and c1: "c_prompt (two_characters ! 1) = ''boy''"
            "c_negativePrompt (two_characters ! 1) = None"
    by (simp_all add: two_characters_def)
  have none: "np_characters defaultParams = None"
    by (simp add: defaultParams_def)
  from payload_character_captions [of ?p "''q''" "\<lambda>i. None" "''2girls''" "''lowres''"] cs
  have a: "length (vp_char_captions (pp_v4_prompt (pl_parameters
          (generateImage_payload ''q'' (\<lambda>i. None) ''2girls'' ''lowres'' ?p)))) = length two_characters
      \<and> (\<forall>i < length two_characters.
           char_caption (vp_char_captions (pp_v4_prompt (pl_parameters
               (generateImage_payload ''q'' (\<lambda>i. None) ''2girls'' ''lowres'' ?p))) ! i)
             = c_prompt (two_characters ! i)
         \<and> char_caption (vn_char_captions (pp_v4_negative_prompt (pl_parameters
               (generateImage_payload ''q'' (\<lambda>i. None) ''2girls'' ''lowres'' ?p))) ! i)
             = (case c_negativePrompt (two_characters ! i) of None \<Rightarrow> [] | Some s \<Rightarrow> s))"
    by blast
  from payload_character_captions [of defaultParams "''q''" "\<lambda>i. None" "''2girls''" "''lowres''"]
    none
  have b: "vp_char_captions (pp_v4_prompt (pl_parameters
       (generateImage_payload ''q'' (\<lambda>i. None) ''2girls'' ''lowres'' defaultParams))) = []"
    by blast
  from a i have
    "char_caption (vp_char_captions (pp_v4_prompt (pl_parameters
        (generateImage_payload ''q'' (\<lambda>i. None) ''2girls'' ''lowres'' ?p))) ! 1)
       = c_prompt (two_characters ! 1)"
    "char_caption (vn_char_captions (pp_v4_negative_prompt (pl_parameters
        (generateImage_payload ''q'' (\<lambda>i. None) ''2girls'' ''lowres'' ?p))) ! 1)
       = (case c_negativePrompt (two_characters ! 1) of None \<Rightarrow> [] | Some s \<Rightarrow> s)"
    by blast+
  with a b len c1 show ?thesis
    by simp
qed



text \<open>
  What the archive's metadata does to the seed: without a \<^verbatim>\<open>.json\<close> entry, or when the
  first one does not parse, the seed is the fallback; when it parses into an object whose
  \<^verbatim>\<open>seed\<close> is a number other than 0, that number is the seed; when the number is 0, the
  seed is the fallback.
\<close>

lemma metadata_seed_resolution:
  "List.find (\<lambda>f. endsWith (ze_name f) ''.json'') files = None \<Longrightarrow>
     metadata_seed parse fallback files = fallback"
  "List.find (\<lambda>f. endsWith (ze_name f) ''.json'') files = Some jsonFile \<Longrightarrow>
     parse (ze_data jsonFile) = None \<Longrightarrow> metadata_seed parse fallback files = fallback"
  "List.find (\<lambda>f. endsWith (ze_name f) ''.json'') files = Some jsonFile \<Longrightarrow>
     parse (ze_data jsonFile) = Some (Obj fs) \<Longrightarrow> map_of fs ''seed'' = Some (Num n) \<Longrightarrow>
     n \<noteq> 0 \<Longrightarrow> metadata_seed parse fallback files = Num n"
  "List.find (\<lambda>f. endsWith (ze_name f) ''.json'') files = Some jsonFile \<Longrightarrow>
     parse (ze_data jsonFile) = Some (Obj fs) \<Longrightarrow> map_of fs ''seed'' = Some (Num 0) \<Longrightarrow>
     metadata_seed parse fallback files = fallback"
  by (simp_all add: metadata_seed_def)

text \<open>
  C4, at the input where the code departs from it. The archive has the image and a
  metadata entry whose text is \<^verbatim>\<open>{"seed": 0}\<close>, and the seed 5 was sent. The metadata's
  seed is a number, yet the test \<^verbatim>\<open>if (json.seed)\<close> is false for the number 0, and the
  result keeps the seed that was sent. \<^verbatim>\<open>JSON.parse\<close> is given by its value on the
  metadata text.
\<close>

theorem decode_ignores_metadata_seed_zero:
  \<open>generateImage_decode
      (\<lambda>t. if t = ''{"seed": 0}'' then Some (Obj [(''seed'', Num 0)]) else None)
      base64 (Some 5)
      [\<lparr> ze_name = ''image_0.png'', ze_data = ''iVBORw0KGgo'' \<rparr>,
       \<lparr> ze_name = ''meta.json'', ze_data = ''{"seed": 0}'' \<rparr>]
    = Inr \<lparr> ir_image = ''data:image/png;base64,'' @ base64 ''iVBORw0KGgo'',
            ir_seed = Num 5 \<rparr>\<close>
  by (simp add: generateImage_decode_def metadata_seed_def endsWith_def)

section \<open>Properties of the fetch handler\<close>

subsection \<open>Dispatch\<close>

lemma startsWith_Cons [simp]:
  "startsWith s [] = True"
  "startsWith [] (c # p) = False"
  "startsWith (a # s) (c # p) = (a = c \<and> startsWith s p)"
  by (auto simp: startsWith_def)

lemma fetch_generate:
  assumes "rq_path req = ''/api/generate''" and "rq_method req = ''POST''"
  shows "fetch P e rt req s = catch_500 P (generate P e (rq_json req) s)"
  using assms by (simp add: fetch_def fetch_api_def admin_route_def Let_def)

lemma fetch_verify_key:
  assumes "rq_path req = ''/api/verify-key''" and "rq_method req = ''POST''"
  shows "fetch P e rt req s = catch_500 P (verify_key P e (rq_json req) s)"
  using assms by (simp add: fetch_def fetch_api_def admin_route_def Let_def)

lemma traced_simps [simp]:
  "d1_all (traced P) q (s, lg) = (case d1_all P q s of (r, s') \<Rightarrow> (r, (s', lg @ [Call_all q])))"
  "d1_first (traced P) q (s, lg) = (case d1_first P q s of (r, s') \<Rightarrow> (r, (s', lg @ [Call_first q])))"
  "d1_run (traced P) q (s, lg) = (case d1_run P q s of (r, s') \<Rightarrow> (r, (s', lg @ [Call_run q])))"
  "d1_exec (traced P) x (s, lg) = (case d1_exec P x s of (r, s') \<Rightarrow> (r, (s', lg @ [Call_exec x])))"
  "nai_fetch (traced P) a b (s, lg) = (case nai_fetch P a b s of (r, s') \<Rightarrow> (r, (s', lg @ [Call_nai a b])))"
  "JSON_parse (traced P) = JSON_parse P"
  "JSON_stringify (traced P) = JSON_stringify P"
  by (simp_all add: traced_def)

lemma error_traced [simp]: "error (traced P) msg st = error P msg st"
  by (simp add: error_def)

lemma match_id_append:
  "cid \<noteq> [] \<Longrightarrow> CHR ''/'' \<notin> set cid \<Longrightarrow> match_id pre (pre @ cid) = Some cid"
  by (simp add: match_id_def)

lemma match_id_slash:
  "CHR ''/'' \<in> set rest \<Longrightarrow> match_id pre (pre @ rest) = None"
  by (simp add: match_id_def)

lemma match_versions_path:
  "cid \<noteq> [] \<Longrightarrow> CHR ''/'' \<notin> set cid \<Longrightarrow>
     match_versions (''/api/chains/'' @ cid @ ''/versions'') = Some cid"
proof -
  assume a: "cid \<noteq> []" "CHR ''/'' \<notin> set cid"
  then have b: "\<forall>c \<in> set cid. c \<noteq> CHR ''/''" by auto
  have p: "prefix ''/api/chains/'' (''/api/chains/'' @ cid @ ''/versions'')" by simp
  have d: "drop (length ''/api/chains/'') (''/api/chains/'' @ cid @ ''/versions'') = cid @ ''/versions''"
    by simp
  from b have t: "takeWhile (\<lambda>c. c \<noteq> CHR ''/'') (cid @ ''/versions'') = cid"
    by (simp add: takeWhile_append2)
  from b have w: "dropWhile (\<lambda>c. c \<noteq> CHR ''/'') (cid @ ''/versions'') = ''/versions''"
    by (simp add: dropWhile_append2)
  show ?thesis
    unfolding match_versions_def using a p by (simp only: d t w Let_def if_True simp_thms)
qed

lemma fetch_createChain:
  assumes "rq_path req = ''/api/chains''" and "rq_method req = ''POST''" and "DB e = DB_d1"
  shows "fetch P e rt req s = catch_500 P (createChain P rt (rq_json req) s)"
  using assms
  by (simp add: fetch_def fetch_api_def fetch_db_routes_def admin_route_def Let_def)

lemma fetch_createVersion:
  assumes "rq_path req = ''/api/chains/'' @ cid @ ''/versions''" and "rq_method req = ''POST''"
    and "DB e = DB_d1" and "cid \<noteq> []" and "CHR ''/'' \<notin> set cid"
  shows "fetch P e rt req s = catch_500 P (createVersion P rt cid (rq_json req) s)"
proof -
  have m: "match_id ''/api/chains/'' (rq_path req) = None"
    using assms(1) match_id_slash [of "cid @ ''/versions''" "''/api/chains/''"] by simp
  have v: "match_versions (rq_path req) = Some cid"
    using assms match_versions_path by simp
  have api: "fetch_api P e rt req s = createVersion P rt cid (rq_json req) s"
    using assms(2,3) m v
    by (simp add: fetch_api_def fetch_db_routes_def fetch_versions_onwards_def admin_route_def
          Let_def assms(1))
  show ?thesis
    using api assms(1,2) by (simp add: fetch_def)
qed

lemma fetch_updateChainMeta:
  assumes "rq_path req = ''/api/chains/'' @ cid" and "rq_method req = ''PUT''"
    and "rq_master_key req = Some (MASTER_KEY e)"
    and "DB e = DB_d1" and "cid \<noteq> []" and "CHR ''/'' \<notin> set cid"
  shows "fetch P e rt req s = catch_500 P (updateChainMeta P rt cid (rq_json req) s)"
proof -
  have m: "match_id ''/api/chains/'' (rq_path req) = Some cid"
    unfolding assms(1) by (rule match_id_append [OF assms(5,6)])
  have api: "fetch_api P e rt req s = updateChainMeta P rt cid (rq_json req) s"
    using assms(2,3,4,5) m
    by (simp add: fetch_api_def fetch_db_routes_def admin_route_def Let_def assms(1))
  show ?thesis
    using api assms(1,2) by (simp add: fetch_def)
qed

lemma fetch_unauthorized:
  assumes "startsWith (rq_path req) ''/api/''"
    and "admin_route (rq_method req) (rq_path req)"
    and "rq_master_key req \<noteq> Some (MASTER_KEY e)"
  shows "fetch P e rt req s = (error P ''Unauthorized'' 401, s)"
proof -
  from assms(2) have "rq_method req \<noteq> ''OPTIONS''"
    by (auto simp: admin_route_def)
  with assms show ?thesis
    by (simp add: fetch_def fetch_api_def catch_500_def Let_def)
qed

lemma fetch_versions_onwards_ignores_master_key:
  "fetch_versions_onwards P rt (req\<lparr> rq_master_key := h \<rparr>) s
     = fetch_versions_onwards P rt req s"
  by (simp add: fetch_versions_onwards_def Let_def cong: option.case_cong)

lemma fetch_db_routes_ignores_master_key:
  "fetch_db_routes P rt (req\<lparr> rq_master_key := h \<rparr>) s = fetch_db_routes P rt req s"
  by (simp add: fetch_db_routes_def fetch_versions_onwards_ignores_master_key Let_def
        split: option.splits)

lemma fetch_ignores_master_key:
  assumes "\<not> admin_route (rq_method req) (rq_path req)"
  shows "fetch P e rt (req\<lparr> rq_master_key := h \<rparr>) s = fetch P e rt req s"
  using assms
  by (cases "DB e")
     (simp_all add: fetch_def fetch_api_def fetch_db_routes_ignores_master_key Let_def)

subsection \<open>Updating a chain\<close>

lemma get_prop_defined: "b \<noteq> Null \<Longrightarrow> b \<noteq> Undefined \<Longrightarrow> get_prop b k = Some (js_prop b k)"
  by (cases b) (simp_all add: js_prop_def)

lemma success_traced [simp]: "success (traced P) = success P"
  by (simp add: success_def json_def)

lemma updateChainMeta_no_fields:
  assumes "b \<noteq> Null" "b \<noteq> Undefined"
    and "js_prop b ''name'' = Undefined" "js_prop b ''description'' = Undefined"
        "js_prop b ''previewImage'' = Undefined"
  shows "updateChainMeta P rt cid (Inr b) s = (Inr (success P), s)"
  using assms by (simp add: updateChainMeta_def get_prop_defined Let_def)

lemma updateChainMeta_store:
  assumes "b \<noteq> Null" "b \<noteq> Undefined"
    and "d1_run P = store_run" and "t_chains t = Some rows"
    and "js_prop b ''name'' \<noteq> Undefined \<or> js_prop b ''description'' \<noteq> Undefined
         \<or> js_prop b ''previewImage'' \<noteq> Undefined"
    and "js_prop b ''name'' = Undefined \<or> (\<exists>x. js_prop b ''name'' = Str x)"
    and "js_prop b ''description'' = Undefined \<or> js_prop b ''description'' = Null
         \<or> (\<exists>x. js_prop b ''description'' = Str x)"
    and "js_prop b ''previewImage'' = Undefined \<or> js_prop b ''previewImage'' = Null
         \<or> (\<exists>x. js_prop b ''previewImage'' = Str x)"
  shows "updateChainMeta P rt cid (Inr b) t =
     (Inr (success P),
      t\<lparr> t_chains := Some (map (\<lambda>r.
           if ch_id r = cid
           then r\<lparr> ch_name := (if js_prop b ''name'' = Undefined then ch_name r
                                 else js_prop b ''name''),
                   ch_description := (if js_prop b ''description'' = Undefined
                                      then ch_description r else js_prop b ''description''),
                   ch_preview_image := (if js_prop b ''previewImage'' = Undefined
                                        then ch_preview_image r else js_prop b ''previewImage''),
                   ch_updated_at := Date_now rt 0 \<rparr>
           else r) rows) \<rparr>)"
proof -
  have bo: "\<And>v. v = Undefined \<or> v = Null \<or> (\<exists>x. v = Str x) \<Longrightarrow>
      bind_opt (if v \<noteq> Undefined then Some v else None)
        = Some (if v \<noteq> Undefined then Some v else None)"
    by (auto simp: bind_opt_def)
  have so: "\<And>v old. set_opt (if v \<noteq> Undefined then Some v else None) old
      = (if v = Undefined then old else v)"
    by (simp add: set_opt_def)
  have nn: "(if js_prop b ''name'' \<noteq> Undefined then Some (js_prop b ''name'') else None)
      \<noteq> Some Null"
    using assms(6) by auto
  have len: "0 < length ((if js_prop b ''name'' \<noteq> Undefined then [''name = ?''] else [])
      @ (if js_prop b ''description'' \<noteq> Undefined then [''description = ?''] else [])
      @ (if js_prop b ''previewImage'' \<noteq> Undefined then [''preview_image = ?''] else []))"
    using assms(5) by auto
  have b1: "bind_opt (if js_prop b ''name'' \<noteq> Undefined then Some (js_prop b ''name'') else None)
      = Some (if js_prop b ''name'' \<noteq> Undefined then Some (js_prop b ''name'') else None)"
    using assms(6) by (intro bo) blast
  note b2 = bo [OF assms(7)] and b3 = bo [OF assms(8)]
  show ?thesis
    unfolding updateChainMeta_def
    using len nn
    by (simp add: get_prop_defined [OF assms(1,2)] Let_def assms(3,4) b1 b2 b3 so
          del: length_greater_0_conv)
qed

subsection \<open>Creating versions\<close>

lemma js_or_text:
  "v = Undefined \<or> v = Null \<or> (\<exists>x. v = Str x) \<Longrightarrow> \<exists>x. js_or v (Str []) = Str x"
  by (auto simp: js_or_def)

lemma fold_max_Max: "fold max vs (v::int) = Max (set (v # vs))"
  by (rule Max.set_eq_fold [symmetric])

lemma max_version_interval:
  assumes "set (versions_of cid vrows) = {1..int m}"
  shows "max_version cid vrows = (if m = 0 then None else Some (int m))"
proof (cases "versions_of cid vrows")
  case Nil
  with assms have "{1..int m} = {}" by simp
  then have "m = 0" by simp
  with Nil show ?thesis by (simp add: max_version_def)
next
  case (Cons v vs)
  with assms have s: "set (v # vs) = {1..int m}" by simp
  then have "{1..int m} \<noteq> {}" by (metis list.distinct(1) set_empty)
  then have m: "m \<noteq> 0" by auto
  then have "Max {1..int m} = int m" by (simp add: Max_eq_iff)
  with s have "Max (set (v # vs)) = int m" by simp
  with Cons m show ?thesis
    by (simp add: max_version_def fold_max_Max del: set_simps Max.set_eq_fold)
qed

lemma nextVer_interval:
  assumes "set (versions_of cid vrows) = {1..int m}"
  shows "nextVer (Some (max_version cid vrows)) = int m + 1"
  using max_version_interval [OF assms] by (simp add: nextVer_def)

lemma nextVer_max:
  "nextVer (Some mx) = (case mx of None \<Rightarrow> 1 | Some v \<Rightarrow> v + 1)"
  by (simp add: nextVer_def split: option.splits)

lemma createVersion_store:
  assumes P: "d1_first P = store_first" "d1_run P = store_run"
    and t: "t_versions t = Some vrows" "t_chains t = Some crows"
    and cid: "cid \<in> ch_id ` set crows"
    and fresh: "randomUUID rt 0 \<notin> v_id ` set vrows"
    and b: "b \<noteq> Null" "b \<noteq> Undefined"
    and bp: "js_prop b ''basePrompt'' = Undefined \<or> js_prop b ''basePrompt'' = Null
             \<or> (\<exists>x. js_prop b ''basePrompt'' = Str x)"
    and np: "js_prop b ''negativePrompt'' = Undefined \<or> js_prop b ''negativePrompt'' = Null
             \<or> (\<exists>x. js_prop b ''negativePrompt'' = Str x)"
  shows "createVersion P rt cid (Inr b) t =
     (Inr (json P (Obj [(''id'', Str (randomUUID rt 0)),
                        (''version'', Num (of_int (nextVer (Some (max_version cid vrows)))))])
             200),
      t\<lparr> t_versions := Some (vrows @
           [\<lparr> v_id = randomUUID rt 0, v_chain_id = cid,
              v_version = nextVer (Some (max_version cid vrows)),
              v_base_prompt = js_or (js_prop b ''basePrompt'') (Str []),
              v_negative_prompt = js_or (js_prop b ''negativePrompt'') (Str []),
              v_modules = JSON_stringify P (js_or (js_prop b ''modules'') (Arr [])),
              v_params = JSON_stringify P (js_or (js_prop b ''params'') (Obj [])),
              v_created_at = Date_now rt 0 \<rparr>]),
         t_chains := Some (map (\<lambda>r.
              if ch_id r = cid then r\<lparr> ch_updated_at := Date_now rt 1 \<rparr> else r) crows) \<rparr>)"
proof -
  from js_or_text [OF bp] obtain x where x: "js_or (js_prop b ''basePrompt'') (Str []) = Str x" ..
  from js_or_text [OF np] obtain y where y: "js_or (js_prop b ''negativePrompt'') (Str []) = Str y" ..
  show ?thesis
    unfolding createVersion_def
    using cid fresh
    by (simp add: P t get_prop_defined [OF b] x y Let_def)
qed


lemma text_or_absent_cases:
  "text_or_absent v \<Longrightarrow> v = Undefined \<or> v = Null \<or> (\<exists>x. v = Str x)"
  by (cases v) (simp_all add: text_or_absent_def)


lemma versions_of_append:
  "versions_of cid (vrows @ [r]) =
     versions_of cid vrows @ (if v_chain_id r = cid then [v_version r] else [])"
  by (simp add: versions_of_def)

lemma fetch_version_request:
  assumes P: "d1_first P = store_first" "d1_run P = store_run"
    and e: "DB e = DB_d1" and c: "cid \<noteq> []" "CHR ''/'' \<notin> set cid"
    and t: "t_versions t = Some vrows" "t_chains t = Some crows"
    and cid: "cid \<in> ch_id ` set crows"
    and fresh: "randomUUID rt 0 \<notin> v_id ` set vrows"
    and b: "version_body b"
  shows "fetch P e rt (snd (version_request cid (rt, b))) t =
     (json P (Obj [(''id'', Str (randomUUID rt 0)),
                   (''version'', Num (of_int (nextVer (Some (max_version cid vrows)))))]) 200,
      t\<lparr> t_versions := Some (vrows @
           [\<lparr> v_id = randomUUID rt 0, v_chain_id = cid,
              v_version = nextVer (Some (max_version cid vrows)),
              v_base_prompt = js_or (js_prop b ''basePrompt'') (Str []),
              v_negative_prompt = js_or (js_prop b ''negativePrompt'') (Str []),
              v_modules = JSON_stringify P (js_or (js_prop b ''modules'') (Arr [])),
              v_params = JSON_stringify P (js_or (js_prop b ''params'') (Obj [])),
              v_created_at = Date_now rt 0 \<rparr>]),
         t_chains := Some (map (\<lambda>r.
              if ch_id r = cid then r\<lparr> ch_updated_at := Date_now rt 1 \<rparr> else r) crows) \<rparr>)"
proof -
  from b have b': "b \<noteq> Null" "b \<noteq> Undefined"
    and bp: "js_prop b ''basePrompt'' = Undefined \<or> js_prop b ''basePrompt'' = Null
             \<or> (\<exists>x. js_prop b ''basePrompt'' = Str x)"
    and np: "js_prop b ''negativePrompt'' = Undefined \<or> js_prop b ''negativePrompt'' = Null
             \<or> (\<exists>x. js_prop b ''negativePrompt'' = Str x)"
    by (simp_all add: version_body_def text_or_absent_cases)
  have "fetch P e rt (snd (version_request cid (rt, b))) t
      = catch_500 P (createVersion P rt cid (Inr b) t)"
    using fetch_createVersion [of "snd (version_request cid (rt, b))" cid e P rt t] e c
    by (simp add: version_request_def)
  then show ?thesis
    by (simp add: createVersion_store [OF P t cid fresh b' bp np] catch_500_def)
qed

lemma createVersion_sequence:
  assumes P: "d1_first P = store_first" "d1_run P = store_run"
    and e: "DB e = DB_d1" and c: "cid \<noteq> []" "CHR ''/'' \<notin> set cid"
  shows "t_versions t = Some vrows \<Longrightarrow> t_chains t = Some crows \<Longrightarrow> cid \<in> ch_id ` set crows
    \<Longrightarrow> distinct (versions_of cid vrows) \<Longrightarrow> set (versions_of cid vrows) = {1..int m}
    \<Longrightarrow> distinct (map (\<lambda>call. randomUUID (fst call) 0) calls)
    \<Longrightarrow> \<forall>call \<in> set calls. randomUUID (fst call) 0 \<notin> v_id ` set vrows \<and> version_body (snd call)
    \<Longrightarrow> fst (fetch_all P e (map (version_request cid) calls) t) =
          map (\<lambda>(v, call). json P (Obj [(''id'', Str (randomUUID (fst call) 0)),
                                         (''version'', Num (of_nat v))]) 200)
            (enumerate (Suc m) calls)
        \<and> (\<exists>vrows'. t_versions (snd (fetch_all P e (map (version_request cid) calls) t))
                       = Some vrows'
             \<and> distinct (versions_of cid vrows')
             \<and> set (versions_of cid vrows') = {1..int (m + length calls)})"
proof (induction calls arbitrary: t vrows crows m)
  case Nil
  then show ?case by simp
next
  case (Cons call calls)
  obtain rt b where call: "call = (rt, b)" by (cases call)
  let ?new = "\<lparr> v_id = randomUUID rt 0, v_chain_id = cid, v_version = int m + 1,
              v_base_prompt = js_or (js_prop b ''basePrompt'') (Str []),
              v_negative_prompt = js_or (js_prop b ''negativePrompt'') (Str []),
              v_modules = JSON_stringify P (js_or (js_prop b ''modules'') (Arr [])),
              v_params = JSON_stringify P (js_or (js_prop b ''params'') (Obj [])),
              v_created_at = Date_now rt 0 \<rparr>"
  let ?crows = "map (\<lambda>r. if ch_id r = cid then r\<lparr> ch_updated_at := Date_now rt 1 \<rparr> else r) crows"
  let ?t1 = "t\<lparr> t_versions := Some (vrows @ [?new]), t_chains := Some ?crows \<rparr>"
  from Cons.prems call have fresh: "randomUUID rt 0 \<notin> v_id ` set vrows" and b: "version_body b"
    by auto
  have nv: "nextVer (Some (max_version cid vrows)) = int m + 1"
    using Cons.prems(5) by (rule nextVer_interval)
  have step: "fetch P e rt (snd (version_request cid (rt, b))) t =
      (json P (Obj [(''id'', Str (randomUUID rt 0)), (''version'', Num (of_nat (Suc m)))]) 200, ?t1)"
    using fetch_version_request [OF P e c Cons.prems(1,2,3) fresh b]
    by (simp add: nv add.commute)
  have v1: "t_versions ?t1 = Some (vrows @ [?new])" and c1: "t_chains ?t1 = Some ?crows"
    by simp_all
  have "map ch_id ?crows = map ch_id crows"
    by (induction crows) auto
  then have "ch_id ` set ?crows = ch_id ` set crows"
    by (metis list.set_map)
  with Cons.prems(3) have cid1: "cid \<in> ch_id ` set ?crows"
    by simp
  have vo: "versions_of cid (vrows @ [?new]) = versions_of cid vrows @ [int m + 1]"
    by (simp add: versions_of_append)
  have d1: "distinct (versions_of cid (vrows @ [?new]))"
    using Cons.prems(4,5) by (simp add: vo)
  have s1: "set (versions_of cid (vrows @ [?new])) = {1..int (Suc m)}"
    using Cons.prems(5) by (auto simp: vo)
  have du: "distinct (map (\<lambda>call. randomUUID (fst call) 0) calls)"
    using Cons.prems(6) by simp
  have fr: "\<forall>call \<in> set calls. randomUUID (fst call) 0 \<notin> v_id ` set (vrows @ [?new])
              \<and> version_body (snd call)"
    using Cons.prems(6,7) call by (auto simp: image_iff)
  note IH = Cons.IH [OF v1 c1 cid1 d1 s1 du fr]
  have fa: "fetch_all P e (version_request cid (rt, b) # map (version_request cid) calls) t =
      (case fetch_all P e (map (version_request cid) calls) ?t1 of (ress, s2) \<Rightarrow>
         (json P (Obj [(''id'', Str (randomUUID rt 0)), (''version'', Num (of_nat (Suc m)))]) 200
            # ress, s2))"
  proof -
    have vr: "version_request cid (rt, b) = (rt, snd (version_request cid (rt, b)))"
      by (simp add: version_request_def)
    show ?thesis
      by (subst vr) (simp add: step del: of_nat_Suc)
  qed
  show ?case
    using IH by (simp add: fa call split_beta enumerate_simps del: of_nat_Suc)
qed

subsection \<open>The retry after a missing table\<close>















subsection \<open>The provider proxy\<close>



subsection \<open>The check of the master key\<close>

text \<open>
  C10. Among the requests for a path under \<^verbatim>\<open>/api/\<close> (any other path is handed to the
  asset server before the routes), the \<^verbatim>\<open>X-Master-Key\<close> header is compared with the
  secret exactly when the method is PUT or DELETE, or the method is POST and the path starts
  with \<^verbatim>\<open>/api/artists\<close> or \<^verbatim>\<open>/api/inspirations\<close>: such a request without the
  right header is answered 401 and the state is untouched, and for every other request the
  answer and the state after it are the same whatever the header is. In particular
  \<^verbatim>\<open>POST /api/verify-key\<close>, \<^verbatim>\<open>POST /api/generate\<close>, \<^verbatim>\<open>POST /api/chains\<close> and
  \<^verbatim>\<open>POST /api/chains/{id}/versions\<close> sent with no header at all reach their operation:
  a caller without the secret creates chains and versions and invokes the provider.
\<close>

theorem master_key_check_scope:
  "(startsWith (rq_path req) ''/api/''
      \<and> (rq_method req = ''PUT'' \<or> rq_method req = ''DELETE''
           \<or> (rq_method req = ''POST''
               \<and> (startsWith (rq_path req) ''/api/artists''
                    \<or> startsWith (rq_path req) ''/api/inspirations'')))
      \<and> rq_master_key req \<noteq> Some (MASTER_KEY e)
      \<longrightarrow> fetch P e rt req s = (error P ''Unauthorized'' 401, s))
   \<and> (\<not> (rq_method req = ''PUT'' \<or> rq_method req = ''DELETE''
           \<or> (rq_method req = ''POST''
               \<and> (startsWith (rq_path req) ''/api/artists''
                    \<or> startsWith (rq_path req) ''/api/inspirations'')))
      \<longrightarrow> (\<forall>h. fetch P e rt (req\<lparr> rq_master_key := h \<rparr>) s = fetch P e rt req s))
   \<and> fetch P e rt \<lparr> rq_method = ''POST'', rq_path = ''/api/verify-key'',
                     rq_master_key = None, rq_json = b \<rparr> s
       = catch_500 P (verify_key P e b s)
   \<and> fetch P e rt \<lparr> rq_method = ''POST'', rq_path = ''/api/generate'',
                     rq_master_key = None, rq_json = b \<rparr> s
       = catch_500 P (generate P e b s)
   \<and> (DB e = DB_d1 \<longrightarrow>
        fetch P e rt \<lparr> rq_method = ''POST'', rq_path = ''/api/chains'',
                       rq_master_key = None, rq_json = b \<rparr> s
          = catch_500 P (createChain P rt b s))
   \<and> (DB e = DB_d1 \<and> cid \<noteq> [] \<and> CHR ''/'' \<notin> set cid \<longrightarrow>
        fetch P e rt \<lparr> rq_method = ''POST'', rq_path = ''/api/chains/'' @ cid @ ''/versions'',
                       rq_master_key = None, rq_json = b \<rparr> s
          = catch_500 P (createVersion P rt cid b s))"
proof -
  have adm: "admin_route (rq_method req) (rq_path req) =
      (rq_method req = ''PUT'' \<or> rq_method req = ''DELETE''
           \<or> (rq_method req = ''POST''
               \<and> (startsWith (rq_path req) ''/api/artists''
                    \<or> startsWith (rq_path req) ''/api/inspirations'')))"
    by (auto simp: admin_route_def)
  have 1: "startsWith (rq_path req) ''/api/''
      \<and> admin_route (rq_method req) (rq_path req)
      \<and> rq_master_key req \<noteq> Some (MASTER_KEY e)
      \<longrightarrow> fetch P e rt req s = (error P ''Unauthorized'' 401, s)"
    by (simp add: fetch_unauthorized)
  have 2: "\<not> admin_route (rq_method req) (rq_path req)
      \<longrightarrow> (\<forall>h. fetch P e rt (req\<lparr> rq_master_key := h \<rparr>) s = fetch P e rt req s)"
    by (simp add: fetch_ignores_master_key)
  have 3: "fetch P e rt \<lparr> rq_method = ''POST'', rq_path = ''/api/verify-key'',
                     rq_master_key = None, rq_json = b \<rparr> s
       = catch_500 P (verify_key P e b s)"
    by (simp add: fetch_verify_key)
  have 4: "fetch P e rt \<lparr> rq_method = ''POST'', rq_path = ''/api/generate'',
                     rq_master_key = None, rq_json = b \<rparr> s
       = catch_500 P (generate P e b s)"
    by (simp add: fetch_generate)
  have 5: "DB e = DB_d1 \<longrightarrow>
        fetch P e rt \<lparr> rq_method = ''POST'', rq_path = ''/api/chains'',
                       rq_master_key = None, rq_json = b \<rparr> s
          = catch_500 P (createChain P rt b s)"
    by (simp add: fetch_createChain)
  have 6: "DB e = DB_d1 \<and> cid \<noteq> [] \<and> CHR ''/'' \<notin> set cid \<longrightarrow>
        fetch P e rt \<lparr> rq_method = ''POST'', rq_path = ''/api/chains/'' @ cid @ ''/versions'',
                       rq_master_key = None, rq_json = b \<rparr> s
          = catch_500 P (createVersion P rt cid b s)"
    using fetch_createVersion [of "\<lparr> rq_method = ''POST'', rq_path = ''/api/chains/'' @ cid @ ''/versions'',
                       rq_master_key = None, rq_json = b \<rparr>" cid e P rt s]
    by simp
  show ?thesis
    using 1 2 3 4 5 6 unfolding adm by (intro conjI) assumption+
qed

theorem master_key_check_scope_witness:
  "(fetch (store_platform rate_limited) bound_env (runtime_of ''a'' 100)
      \<lparr> rq_method = ''DELETE'', rq_path = ''/api/chains/c1'', rq_master_key = None,
        rq_json = Inl ''no body'' \<rparr> one_chain
     = (error (store_platform rate_limited) ''Unauthorized'' 401, one_chain)
   \<and> fetch (store_platform rate_limited) bound_env (runtime_of ''a'' 100)
      \<lparr> rq_method = ''GET'', rq_path = ''/api/artists'', rq_master_key = Some ''guess'',
        rq_json = Inl ''no body'' \<rparr> one_chain
     = fetch (store_platform rate_limited) bound_env (runtime_of ''a'' 100)
      \<lparr> rq_method = ''GET'', rq_path = ''/api/artists'', rq_master_key = None,
        rq_json = Inl ''no body'' \<rparr> one_chain
   \<and> fetch (store_platform rate_limited) bound_env (runtime_of ''a'' 100)
      \<lparr> rq_method = ''POST'', rq_path = ''/api/chains'', rq_master_key = None,
        rq_json = Inr (Obj [(''name'', Str ''Foo''), (''description'', Str ''bar'')]) \<rparr>
      provisioned
     = (json (store_platform rate_limited) (Obj [(''id'', Str ''a'')]) 200,
        provisioned
          \<lparr> t_chains := Some [\<lparr> ch_id = ''a'', ch_name = Str ''Foo'',
                                ch_description = Str ''bar'', ch_tags = ''[]'',
                                ch_preview_image = Null, ch_created_at = 100,
                                ch_updated_at = 100 \<rparr>],
            t_versions := Some [\<lparr> v_id = ''a+'', v_chain_id = ''a'', v_version = 1,
                v_base_prompt = Str ''masterpiece, best quality, {character}'',
                v_negative_prompt = Str ''lowres, bad anatomy'',
                v_modules = json_text (defaultModules (runtime_of ''a'' 100)),
                v_params = json_text defaultParams_json, v_created_at = 100 \<rparr>] \<rparr>))
   \<and> (fst (fetch (store_platform rate_limited) bound_env (runtime_of ''a'' 100)
      \<lparr> rq_method = ''POST'', rq_path = ''/api/chains/c1/versions'', rq_master_key = None,
        rq_json = Inr (Obj []) \<rparr> one_chain)
     = json (store_platform rate_limited) (Obj [(''id'', Str ''a''), (''version'', Num 2)]) 200
   \<and> fetch (store_platform rate_limited) bound_env (runtime_of ''a'' 100)
      \<lparr> rq_method = ''POST'', rq_path = ''/api/generate'', rq_master_key = None,
        rq_json = Inr (Obj []) \<rparr> one_chain
     = (error (store_platform rate_limited) ''NAI API Error: Too many requests'' 429, one_chain)
   \<and> fetch (store_platform rate_limited) bound_env (runtime_of ''a'' 100)
      \<lparr> rq_method = ''POST'', rq_path = ''/api/verify-key'', rq_master_key = None,
        rq_json = Inr (Obj [(''key'', Str ''guess'')]) \<rparr> one_chain
     = (error (store_platform rate_limited) ''Invalid Key'' 401, one_chain))"
proof -
  let ?P = "store_platform rate_limited"
  let ?rt = "runtime_of ''a'' 100"
  let ?del = "\<lparr> rq_method = ''DELETE'', rq_path = ''/api/chains/c1'', rq_master_key = None,
        rq_json = Inl ''no body'' \<rparr>"
  let ?get = "\<lparr> rq_method = ''GET'', rq_path = ''/api/artists'', rq_master_key = None,
        rq_json = Inl ''no body'' \<rparr>"
  let ?b = "Inr (Obj [(''name'', Str ''Foo''), (''description'', Str ''bar'')])"
  have 1: "fetch ?P bound_env ?rt ?del one_chain = (error ?P ''Unauthorized'' 401, one_chain)"
    using master_key_check_scope [of ?del bound_env ?P ?rt one_chain]
    by (simp add: bound_env_def)
  have 2: "fetch ?P bound_env ?rt (?get\<lparr> rq_master_key := Some ''guess'' \<rparr>) one_chain
      = fetch ?P bound_env ?rt ?get one_chain"
    using master_key_check_scope [of ?get bound_env ?P ?rt one_chain]
    by simp
  have 3: "fetch ?P bound_env ?rt
      \<lparr> rq_method = ''POST'', rq_path = ''/api/chains'', rq_master_key = None,
        rq_json = ?b \<rparr> provisioned = catch_500 ?P (createChain ?P ?rt ?b provisioned)"
    using master_key_check_scope [of ?get bound_env ?P ?rt provisioned ?b]
    by (simp add: bound_env_def)
  have 4: "createChain ?P ?rt ?b provisioned =
      (Inr (json ?P (Obj [(''id'', Str ''a'')]) 200),
        provisioned
          \<lparr> t_chains := Some [\<lparr> ch_id = ''a'', ch_name = Str ''Foo'',
                                ch_description = Str ''bar'', ch_tags = ''[]'',
                                ch_preview_image = Null, ch_created_at = 100,
                                ch_updated_at = 100 \<rparr>],
            t_versions := Some [\<lparr> v_id = ''a+'', v_chain_id = ''a'', v_version = 1,
                v_base_prompt = Str ''masterpiece, best quality, {character}'',
                v_negative_prompt = Str ''lowres, bad anatomy'',
                v_modules = json_text (defaultModules ?rt),
                v_params = json_text defaultParams_json, v_created_at = 100 \<rparr>] \<rparr>)"
    by (simp add: createChain_def store_platform_def runtime_of_def provisioned_def js_prop_def
          Let_def)
  from 1 2 3 4 have old: "fetch (store_platform rate_limited) bound_env (runtime_of ''a'' 100)
      \<lparr> rq_method = ''DELETE'', rq_path = ''/api/chains/c1'', rq_master_key = None,
        rq_json = Inl ''no body'' \<rparr> one_chain
     = (error (store_platform rate_limited) ''Unauthorized'' 401, one_chain)
   \<and> fetch (store_platform rate_limited) bound_env (runtime_of ''a'' 100)
      \<lparr> rq_method = ''GET'', rq_path = ''/api/artists'', rq_master_key = Some ''guess'',
        rq_json = Inl ''no body'' \<rparr> one_chain
     = fetch (store_platform rate_limited) bound_env (runtime_of ''a'' 100)
      \<lparr> rq_method = ''GET'', rq_path = ''/api/artists'', rq_master_key = None,
        rq_json = Inl ''no body'' \<rparr> one_chain
   \<and> fetch (store_platform rate_limited) bound_env (runtime_of ''a'' 100)
      \<lparr> rq_method = ''POST'', rq_path = ''/api/chains'', rq_master_key = None,
        rq_json = Inr (Obj [(''name'', Str ''Foo''), (''description'', Str ''bar'')]) \<rparr>
      provisioned
     = (json (store_platform rate_limited) (Obj [(''id'', Str ''a'')]) 200,
        provisioned
          \<lparr> t_chains := Some [\<lparr> ch_id = ''a'', ch_name = Str ''Foo'',
                                ch_description = Str ''bar'', ch_tags = ''[]'',
                                ch_preview_image = Null, ch_created_at = 100,
                                ch_updated_at = 100 \<rparr>],
            t_versions := Some [\<lparr> v_id = ''a+'', v_chain_id = ''a'', v_version = 1,
                v_base_prompt = Str ''masterpiece, best quality, {character}'',
                v_negative_prompt = Str ''lowres, bad anatomy'',
                v_modules = json_text (defaultModules (runtime_of ''a'' 100)),
                v_params = json_text defaultParams_json, v_created_at = 100 \<rparr>] \<rparr>)"
    by (simp add: catch_500_def)
  let ?P = "store_platform rate_limited"
  let ?rt = "runtime_of ''a'' 100"
  let ?get = "\<lparr> rq_method = ''GET'', rq_path = ''/api/artists'', rq_master_key = None,
        rq_json = Inl ''no body'' \<rparr>"
  note T = master_key_check_scope [of ?get bound_env ?P ?rt one_chain _ "''c1''"]
  have 5: "fetch ?P bound_env ?rt
      \<lparr> rq_method = ''POST'', rq_path = ''/api/chains/c1/versions'', rq_master_key = None,
        rq_json = Inr (Obj []) \<rparr> one_chain
      = catch_500 ?P (createVersion ?P ?rt ''c1'' (Inr (Obj [])) one_chain)"
    using T [of "Inr (Obj [])"] by (simp add: bound_env_def)
  have 6: "fst (catch_500 ?P (createVersion ?P ?rt ''c1'' (Inr (Obj [])) one_chain))
      = json ?P (Obj [(''id'', Str ''a''), (''version'', Num 2)]) 200"
    by (simp add: createVersion_def store_platform_def one_chain_def max_version_def
          versions_of_def nextVer_def runtime_of_def js_prop_def js_or_def catch_500_def Let_def)
  have 7: "fetch ?P bound_env ?rt
      \<lparr> rq_method = ''POST'', rq_path = ''/api/generate'', rq_master_key = None,
        rq_json = Inr (Obj []) \<rparr> one_chain
      = (error ?P ''NAI API Error: Too many requests'' 429, one_chain)"
    using T [of "Inr (Obj [])"]
    by (simp add: generate_def store_platform_def rate_limited_def nr_ok_def catch_500_def
          error_def)
  have 8: "fetch ?P bound_env ?rt
      \<lparr> rq_method = ''POST'', rq_path = ''/api/verify-key'', rq_master_key = None,
        rq_json = Inr (Obj [(''key'', Str ''guess'')]) \<rparr> one_chain
      = (error ?P ''Invalid Key'' 401, one_chain)"
    using T [of "Inr (Obj [(''key'', Str ''guess'')])"]
    by (simp add: verify_key_def bound_env_def catch_500_def)
  from 5 6 7 8 have new: "fst (fetch (store_platform rate_limited) bound_env (runtime_of ''a'' 100)
      \<lparr> rq_method = ''POST'', rq_path = ''/api/chains/c1/versions'', rq_master_key = None,
        rq_json = Inr (Obj []) \<rparr> one_chain)
     = json (store_platform rate_limited) (Obj [(''id'', Str ''a''), (''version'', Num 2)]) 200
   \<and> fetch (store_platform rate_limited) bound_env (runtime_of ''a'' 100)
      \<lparr> rq_method = ''POST'', rq_path = ''/api/generate'', rq_master_key = None,
        rq_json = Inr (Obj []) \<rparr> one_chain
     = (error (store_platform rate_limited) ''NAI API Error: Too many requests'' 429, one_chain)
   \<and> fetch (store_platform rate_limited) bound_env (runtime_of ''a'' 100)
      \<lparr> rq_method = ''POST'', rq_path = ''/api/verify-key'', rq_master_key = None,
        rq_json = Inr (Obj [(''key'', Str ''guess'')]) \<rparr> one_chain
     = (error (store_platform rate_limited) ''Invalid Key'' 401, one_chain)"
    by simp
  from old new show ?thesis ..
qed

subsection \<open>Updating the metadata of a chain\<close>

text \<open>
  C7. \<^verbatim>\<open>PUT /api/chains/{id}\<close> with the master key, a bound database and a body that is
  not null. When none of \<^verbatim>\<open>name\<close>, \<^verbatim>\<open>description\<close>, \<^verbatim>\<open>previewImage\<close> is in the
  body, the answer is the success and nothing is asked of the database: the state is the
  one before and the log of the calls is empty. When some of them are there (each a text,
  or null for the two columns that admit it) and the table of the chains exists, the answer
  is the success and the state afterwards differs only in the rows of the chain: the columns
  that are in the body have the body's values, \<^verbatim>\<open>updated_at\<close> is the clock's value, every
  other column, every other row and every other table are as they were.
\<close>

theorem updateChainMeta_applies_present_fields:
  assumes "rq_method req = ''PUT''" and "rq_path req = ''/api/chains/'' @ cid"
    and "cid \<noteq> []" and "CHR ''/'' \<notin> set cid"
    and "rq_master_key req = Some (MASTER_KEY e)" and "DB e = DB_d1"
    and "rq_json req = Inr b" and "b \<noteq> Null" and "b \<noteq> Undefined"
  shows "(js_prop b ''name'' = Undefined \<and> js_prop b ''description'' = Undefined
            \<and> js_prop b ''previewImage'' = Undefined
          \<longrightarrow> fetch P e rt req s = (success P, s)
              \<and> snd (fetch (traced P) e rt req (s, [])) = (s, []))
       \<and> ((js_prop b ''name'' \<noteq> Undefined \<or> js_prop b ''description'' \<noteq> Undefined
              \<or> js_prop b ''previewImage'' \<noteq> Undefined)
            \<and> (js_prop b ''name'' = Undefined \<or> (\<exists>x. js_prop b ''name'' = Str x))
            \<and> text_or_absent (js_prop b ''description'')
            \<and> text_or_absent (js_prop b ''previewImage'')
            \<and> d1_run Q = store_run \<and> t_chains t = Some rows
          \<longrightarrow> fetch Q e rt req t =
                (success Q,
                 t\<lparr> t_chains := Some (map (\<lambda>r.
                      if ch_id r = cid
                      then r\<lparr> ch_name :=
                                (if js_prop b ''name'' = Undefined then ch_name r
                                 else js_prop b ''name''),
                              ch_description :=
                                (if js_prop b ''description'' = Undefined
                                 then ch_description r else js_prop b ''description''),
                              ch_preview_image :=
                                (if js_prop b ''previewImage'' = Undefined
                                 then ch_preview_image r else js_prop b ''previewImage''),
                              ch_updated_at := Date_now rt 0 \<rparr>
                      else r) rows) \<rparr>))"
proof -
  have f: "\<And>R u. fetch R e rt req u = catch_500 R (updateChainMeta R rt cid (Inr b) u)"
    using assms(1-7) by (simp add: fetch_updateChainMeta)
  have 1: "js_prop b ''name'' = Undefined \<and> js_prop b ''description'' = Undefined
            \<and> js_prop b ''previewImage'' = Undefined
          \<longrightarrow> fetch P e rt req s = (success P, s)
              \<and> snd (fetch (traced P) e rt req (s, [])) = (s, [])"
    by (simp add: f updateChainMeta_no_fields [OF assms(8,9)] catch_500_def)
  have 2: "(js_prop b ''name'' \<noteq> Undefined \<or> js_prop b ''description'' \<noteq> Undefined
              \<or> js_prop b ''previewImage'' \<noteq> Undefined)
            \<and> (js_prop b ''name'' = Undefined \<or> (\<exists>x. js_prop b ''name'' = Str x))
            \<and> text_or_absent (js_prop b ''description'')
            \<and> text_or_absent (js_prop b ''previewImage'')
            \<and> d1_run Q = store_run \<and> t_chains t = Some rows
          \<longrightarrow> fetch Q e rt req t =
                (success Q,
                 t\<lparr> t_chains := Some (map (\<lambda>r.
                      if ch_id r = cid
                      then r\<lparr> ch_name :=
                                (if js_prop b ''name'' = Undefined then ch_name r
                                 else js_prop b ''name''),
                              ch_description :=
                                (if js_prop b ''description'' = Undefined
                                 then ch_description r else js_prop b ''description''),
                              ch_preview_image :=
                                (if js_prop b ''previewImage'' = Undefined
                                 then ch_preview_image r else js_prop b ''previewImage''),
                              ch_updated_at := Date_now rt 0 \<rparr>
                      else r) rows) \<rparr>)"
  proof (intro impI, elim conjE)
    assume a: "js_prop b ''name'' \<noteq> Undefined \<or> js_prop b ''description'' \<noteq> Undefined
              \<or> js_prop b ''previewImage'' \<noteq> Undefined"
      "js_prop b ''name'' = Undefined \<or> (\<exists>x. js_prop b ''name'' = Str x)"
      "text_or_absent (js_prop b ''description'')"
      "text_or_absent (js_prop b ''previewImage'')"
      "d1_run Q = store_run" "t_chains t = Some rows"
    note u = updateChainMeta_store [OF assms(8,9) a(5,6) a(1,2)
        text_or_absent_cases [OF a(3)] text_or_absent_cases [OF a(4)], of rt cid]
    show "fetch Q e rt req t =
                (success Q,
                 t\<lparr> t_chains := Some (map (\<lambda>r.
                      if ch_id r = cid
                      then r\<lparr> ch_name :=
                                (if js_prop b ''name'' = Undefined then ch_name r
                                 else js_prop b ''name''),
                              ch_description :=
                                (if js_prop b ''description'' = Undefined
                                 then ch_description r else js_prop b ''description''),
                              ch_preview_image :=
                                (if js_prop b ''previewImage'' = Undefined
                                 then ch_preview_image r else js_prop b ''previewImage''),
                              ch_updated_at := Date_now rt 0 \<rparr>
                      else r) rows) \<rparr>)"
      by (simp only: f u catch_500_def prod.case sum.case)
  qed
  from 1 2 show ?thesis ..
qed

theorem updateChainMeta_applies_present_fields_witness:
  "fetch (store_platform rate_limited) bound_env (runtime_of ''a'' 100)
      \<lparr> rq_method = ''PUT'', rq_path = ''/api/chains/c1'', rq_master_key = Some ''secret'',
        rq_json = Inr (Obj []) \<rparr> one_chain
     = (success (store_platform rate_limited), one_chain)
   \<and> fetch (store_platform rate_limited) bound_env (runtime_of ''a'' 100)
      \<lparr> rq_method = ''PUT'', rq_path = ''/api/chains/c1'', rq_master_key = Some ''secret'',
        rq_json = Inr (Obj [(''name'', Str ''X'')]) \<rparr> one_chain
     = (success (store_platform rate_limited),
        one_chain\<lparr> t_chains := Some [\<lparr> ch_id = ''c1'', ch_name = Str ''X'',
                          ch_description = Str ''studio light'', ch_tags = ''[]'',
                          ch_preview_image = Null, ch_created_at = 10,
                          ch_updated_at = 100 \<rparr>] \<rparr>)"
proof -
  let ?P = "store_platform rate_limited"
  let ?rt = "runtime_of ''a'' 100"
  let ?r0 = "\<lparr> rq_method = ''PUT'', rq_path = ''/api/chains/c1'',
        rq_master_key = Some ''secret'', rq_json = Inr (Obj []) \<rparr>"
  let ?r1 = "\<lparr> rq_method = ''PUT'', rq_path = ''/api/chains/c1'',
        rq_master_key = Some ''secret'', rq_json = Inr (Obj [(''name'', Str ''X'')]) \<rparr>"
  have rows: "t_chains one_chain = Some [\<lparr> ch_id = ''c1'', ch_name = Str ''Portraits'',
                          ch_description = Str ''studio light'', ch_tags = ''[]'',
                          ch_preview_image = Null, ch_created_at = 10, ch_updated_at = 10 \<rparr>]"
    by (simp add: one_chain_def)
  have 0: "fetch ?P bound_env ?rt ?r0 one_chain = (success ?P, one_chain)"
    using updateChainMeta_applies_present_fields
      [of ?r0 "''c1''" bound_env "Obj []" ?P ?rt one_chain ?P one_chain]
    by (simp add: bound_env_def js_prop_def)
  have 1: "fetch ?P bound_env ?rt ?r1 one_chain =
      (success ?P,
       one_chain\<lparr> t_chains := Some (map (\<lambda>r.
            if ch_id r = ''c1''
            then r\<lparr> ch_name := Str ''X'', ch_updated_at := Date_now ?rt 0 \<rparr>
            else r)
          [\<lparr> ch_id = ''c1'', ch_name = Str ''Portraits'',
                          ch_description = Str ''studio light'', ch_tags = ''[]'',
                          ch_preview_image = Null, ch_created_at = 10, ch_updated_at = 10 \<rparr>]) \<rparr>)"
    using updateChainMeta_applies_present_fields
      [of ?r1 "''c1''" bound_env "Obj [(''name'', Str ''X'')]" ?P ?rt one_chain ?P one_chain
          "[\<lparr> ch_id = ''c1'', ch_name = Str ''Portraits'',
                          ch_description = Str ''studio light'', ch_tags = ''[]'',
                          ch_preview_image = Null, ch_created_at = 10, ch_updated_at = 10 \<rparr>]"]
      rows
    by (simp add: bound_env_def js_prop_def text_or_absent_def store_platform_def)
  from 0 1 show ?thesis
    by (simp add: runtime_of_def)
qed

subsection \<open>Creating versions\<close>

text \<open>
  C1. \<^verbatim>\<open>POST /api/chains/{id}/versions\<close> for a chain of a provisioned store (the database
  bound, both tables there, the chain in its table), with fresh identifiers and bodies whose
  prompts are texts or missing. One call answers with the new identifier and the version
  \<^verbatim>\<open>MAX(version) + 1\<close> of the chain (1 when it has no version), appends the version row
  with that number and sets \<^verbatim>\<open>updated_at\<close> of the chain to the clock's value. When the
  chain's version numbers are 1 to m without duplicate (m = 0: no version yet), the calls of
  a sequence served one after the other answer with the versions m + 1, m + 2, ... in turn,
  and afterwards the chain's version numbers are 1 to m + k without duplicate, k being the
  number of calls.
\<close>

theorem createVersion_numbers_versions:
  assumes "d1_first P = store_first" and "d1_run P = store_run" and "DB e = DB_d1"
    and "cid \<noteq> []" and "CHR ''/'' \<notin> set cid"
    and "t_versions t = Some vrows" and "t_chains t = Some crows"
    and "cid \<in> ch_id ` set crows"
  shows "(randomUUID rt 0 \<notin> v_id ` set vrows \<and> version_body b \<longrightarrow>
          fetch P e rt (snd (version_request cid (rt, b))) t =
            (json P (Obj [(''id'', Str (randomUUID rt 0)),
                          (''version'', Num (of_int
                             (case max_version cid vrows of None \<Rightarrow> 1 | Some v \<Rightarrow> v + 1)))])
               200,
             t\<lparr> t_versions := Some (vrows @
                  [\<lparr> v_id = randomUUID rt 0, v_chain_id = cid,
                     v_version = (case max_version cid vrows of None \<Rightarrow> 1 | Some v \<Rightarrow> v + 1),
                     v_base_prompt = js_or (js_prop b ''basePrompt'') (Str []),
                     v_negative_prompt = js_or (js_prop b ''negativePrompt'') (Str []),
                     v_modules = JSON_stringify P (js_or (js_prop b ''modules'') (Arr [])),
                     v_params = JSON_stringify P (js_or (js_prop b ''params'') (Obj [])),
                     v_created_at = Date_now rt 0 \<rparr>]),
                t_chains := Some (map (\<lambda>r.
                     if ch_id r = cid then r\<lparr> ch_updated_at := Date_now rt 1 \<rparr> else r)
                   crows) \<rparr>))
       \<and> (distinct (versions_of cid vrows) \<and> set (versions_of cid vrows) = {1..int m}
            \<and> distinct (map (\<lambda>call. randomUUID (fst call) 0) calls)
            \<and> (\<forall>call \<in> set calls.
                  randomUUID (fst call) 0 \<notin> v_id ` set vrows \<and> version_body (snd call))
          \<longrightarrow> fst (fetch_all P e (map (version_request cid) calls) t) =
                map (\<lambda>(v, call). json P (Obj [(''id'', Str (randomUUID (fst call) 0)),
                                               (''version'', Num (of_nat v))]) 200)
                  (enumerate (Suc m) calls)
              \<and> (\<exists>vrows'. t_versions (snd (fetch_all P e (map (version_request cid) calls) t))
                             = Some vrows'
                   \<and> distinct (versions_of cid vrows')
                   \<and> set (versions_of cid vrows') = {1..int (m + length calls)}))"
proof (rule conjI)
  show "randomUUID rt 0 \<notin> v_id ` set vrows \<and> version_body b \<longrightarrow>
          fetch P e rt (snd (version_request cid (rt, b))) t =
            (json P (Obj [(''id'', Str (randomUUID rt 0)),
                          (''version'', Num (of_int
                             (case max_version cid vrows of None \<Rightarrow> 1 | Some v \<Rightarrow> v + 1)))])
               200,
             t\<lparr> t_versions := Some (vrows @
                  [\<lparr> v_id = randomUUID rt 0, v_chain_id = cid,
                     v_version = (case max_version cid vrows of None \<Rightarrow> 1 | Some v \<Rightarrow> v + 1),
                     v_base_prompt = js_or (js_prop b ''basePrompt'') (Str []),
                     v_negative_prompt = js_or (js_prop b ''negativePrompt'') (Str []),
                     v_modules = JSON_stringify P (js_or (js_prop b ''modules'') (Arr [])),
                     v_params = JSON_stringify P (js_or (js_prop b ''params'') (Obj [])),
                     v_created_at = Date_now rt 0 \<rparr>]),
                t_chains := Some (map (\<lambda>r.
                     if ch_id r = cid then r\<lparr> ch_updated_at := Date_now rt 1 \<rparr> else r)
                   crows) \<rparr>)"
  proof (rule impI)
    assume a: "randomUUID rt 0 \<notin> v_id ` set vrows \<and> version_body b"
    then have fresh: "randomUUID rt 0 \<notin> v_id ` set vrows" and b: "version_body b"
      by simp_all
    show "fetch P e rt (snd (version_request cid (rt, b))) t =
            (json P (Obj [(''id'', Str (randomUUID rt 0)),
                          (''version'', Num (of_int
                             (case max_version cid vrows of None \<Rightarrow> 1 | Some v \<Rightarrow> v + 1)))])
               200,
             t\<lparr> t_versions := Some (vrows @
                  [\<lparr> v_id = randomUUID rt 0, v_chain_id = cid,
                     v_version = (case max_version cid vrows of None \<Rightarrow> 1 | Some v \<Rightarrow> v + 1),
                     v_base_prompt = js_or (js_prop b ''basePrompt'') (Str []),
                     v_negative_prompt = js_or (js_prop b ''negativePrompt'') (Str []),
                     v_modules = JSON_stringify P (js_or (js_prop b ''modules'') (Arr [])),
                     v_params = JSON_stringify P (js_or (js_prop b ''params'') (Obj [])),
                     v_created_at = Date_now rt 0 \<rparr>]),
                t_chains := Some (map (\<lambda>r.
                     if ch_id r = cid then r\<lparr> ch_updated_at := Date_now rt 1 \<rparr> else r)
                   crows) \<rparr>)"
      using fetch_version_request [OF assms(1,2,3,4,5,6,7,8) fresh b]
      by (simp only: nextVer_max)
  qed
next
  show "distinct (versions_of cid vrows) \<and> set (versions_of cid vrows) = {1..int m}
            \<and> distinct (map (\<lambda>call. randomUUID (fst call) 0) calls)
            \<and> (\<forall>call \<in> set calls.
                  randomUUID (fst call) 0 \<notin> v_id ` set vrows \<and> version_body (snd call))
          \<longrightarrow> fst (fetch_all P e (map (version_request cid) calls) t) =
                map (\<lambda>(v, call). json P (Obj [(''id'', Str (randomUUID (fst call) 0)),
                                               (''version'', Num (of_nat v))]) 200)
                  (enumerate (Suc m) calls)
              \<and> (\<exists>vrows'. t_versions (snd (fetch_all P e (map (version_request cid) calls) t))
                             = Some vrows'
                   \<and> distinct (versions_of cid vrows')
                   \<and> set (versions_of cid vrows') = {1..int (m + length calls)})"
  proof (rule impI)
    assume a: "distinct (versions_of cid vrows) \<and> set (versions_of cid vrows) = {1..int m}
            \<and> distinct (map (\<lambda>call. randomUUID (fst call) 0) calls)
            \<and> (\<forall>call \<in> set calls.
                  randomUUID (fst call) 0 \<notin> v_id ` set vrows \<and> version_body (snd call))"
    then have d: "distinct (versions_of cid vrows)"
      and s: "set (versions_of cid vrows) = {1..int m}"
      and u: "distinct (map (\<lambda>call. randomUUID (fst call) 0) calls)"
      and c: "\<forall>call \<in> set calls.
                  randomUUID (fst call) 0 \<notin> v_id ` set vrows \<and> version_body (snd call)"
      by simp_all
    from createVersion_sequence [OF assms(1,2,3,4,5,6,7,8) d s u c]
    show "fst (fetch_all P e (map (version_request cid) calls) t) =
                map (\<lambda>(v, call). json P (Obj [(''id'', Str (randomUUID (fst call) 0)),
                                               (''version'', Num (of_nat v))]) 200)
                  (enumerate (Suc m) calls)
              \<and> (\<exists>vrows'. t_versions (snd (fetch_all P e (map (version_request cid) calls) t))
                             = Some vrows'
                   \<and> distinct (versions_of cid vrows')
                   \<and> set (versions_of cid vrows') = {1..int (m + length calls)})" .
  qed
qed

theorem createVersion_numbers_versions_witness:
  "(fst (fetch_all (store_platform rate_limited) bound_env
         (map (version_request ''c1'')
            [(runtime_of ''a'' 100, Obj [(''basePrompt'', Str ''1girl'')]),
             (runtime_of ''b'' 200, Obj [])]) one_chain) =
     [json (store_platform rate_limited) (Obj [(''id'', Str ''a''), (''version'', Num 2)]) 200,
      json (store_platform rate_limited) (Obj [(''id'', Str ''b''), (''version'', Num 3)]) 200]
   \<and> (\<exists>vrows'.
         t_versions (snd (fetch_all (store_platform rate_limited) bound_env
           (map (version_request ''c1'')
              [(runtime_of ''a'' 100, Obj [(''basePrompt'', Str ''1girl'')]),
               (runtime_of ''b'' 200, Obj [])]) one_chain)) = Some vrows'
         \<and> distinct (versions_of ''c1'' vrows')
         \<and> set (versions_of ''c1'' vrows') = {1..3}))
   \<and> (fetch (store_platform rate_limited) bound_env (runtime_of ''a'' 100)
      (snd (version_request ''c1''
              (runtime_of ''a'' 100, Obj [(''basePrompt'', Str ''1girl'')]))) one_chain
     = (json (store_platform rate_limited) (Obj [(''id'', Str ''a''), (''version'', Num 2)]) 200,
        one_chain
          \<lparr> t_versions := Some
               [\<lparr> v_id = ''v1'', v_chain_id = ''c1'', v_version = 1,
                  v_base_prompt = Str ''masterpiece, best quality, {character}'',
                  v_negative_prompt = Str ''lowres, bad anatomy'',
                  v_modules = ''[]'', v_params = ''{}'', v_created_at = 10 \<rparr>,
                \<lparr> v_id = ''a'', v_chain_id = ''c1'', v_version = 2,
                  v_base_prompt = Str ''1girl'', v_negative_prompt = Str [],
                  v_modules = ''[]'', v_params = ''{}'', v_created_at = 100 \<rparr>],
            t_chains := Some
               [\<lparr> ch_id = ''c1'', ch_name = Str ''Portraits'',
                  ch_description = Str ''studio light'', ch_tags = ''[]'',
                  ch_preview_image = Null, ch_created_at = 10, ch_updated_at = 101 \<rparr>] \<rparr>))"
proof -
  let ?P = "store_platform rate_limited"
  let ?calls = "[(runtime_of ''a'' 100, Obj [(''basePrompt'', Str ''1girl'')]),
                 (runtime_of ''b'' 200, Obj [])]"
  let ?vrows = "[\<lparr> v_id = ''v1'', v_chain_id = ''c1'', v_version = 1,
                            v_base_prompt = Str ''masterpiece, best quality, {character}'',
                            v_negative_prompt = Str ''lowres, bad anatomy'',
                            v_modules = ''[]'', v_params = ''{}'', v_created_at = 10 \<rparr>]"
  let ?crows = "[\<lparr> ch_id = ''c1'', ch_name = Str ''Portraits'',
                          ch_description = Str ''studio light'', ch_tags = ''[]'',
                          ch_preview_image = Null, ch_created_at = 10, ch_updated_at = 10 \<rparr>]"
  have h: "d1_first ?P = store_first" "d1_run ?P = store_run" "DB bound_env = DB_d1"
    "''c1'' \<noteq> []" "CHR ''/'' \<notin> set ''c1''"
    "t_versions one_chain = Some ?vrows" "t_chains one_chain = Some ?crows"
    "''c1'' \<in> ch_id ` set ?crows"
    by (simp_all add: store_platform_def bound_env_def one_chain_def)
  have p: "distinct (versions_of ''c1'' ?vrows) \<and> set (versions_of ''c1'' ?vrows) = {1..int 1}
            \<and> distinct (map (\<lambda>call. randomUUID (fst call) 0) ?calls)
            \<and> (\<forall>call \<in> set ?calls.
                  randomUUID (fst call) 0 \<notin> v_id ` set ?vrows \<and> version_body (snd call))"
    by (simp add: versions_of_def runtime_of_def version_body_def text_or_absent_def js_prop_def)
  from createVersion_numbers_versions [OF h, of _ _ 1 ?calls] p
  have "fst (fetch_all ?P bound_env (map (version_request ''c1'') ?calls) one_chain) =
                map (\<lambda>(v, call). json ?P (Obj [(''id'', Str (randomUUID (fst call) 0)),
                                               (''version'', Num (of_nat v))]) 200)
                  (enumerate (Suc 1) ?calls)
              \<and> (\<exists>vrows'. t_versions (snd (fetch_all ?P bound_env
                      (map (version_request ''c1'') ?calls) one_chain)) = Some vrows'
                   \<and> distinct (versions_of ''c1'' vrows')
                   \<and> set (versions_of ''c1'' vrows') = {1..int (1 + length ?calls)})"
    by blast
  then have old: "fst (fetch_all (store_platform rate_limited) bound_env
         (map (version_request ''c1'')
            [(runtime_of ''a'' 100, Obj [(''basePrompt'', Str ''1girl'')]),
             (runtime_of ''b'' 200, Obj [])]) one_chain) =
     [json (store_platform rate_limited) (Obj [(''id'', Str ''a''), (''version'', Num 2)]) 200,
      json (store_platform rate_limited) (Obj [(''id'', Str ''b''), (''version'', Num 3)]) 200]
   \<and> (\<exists>vrows'.
         t_versions (snd (fetch_all (store_platform rate_limited) bound_env
           (map (version_request ''c1'')
              [(runtime_of ''a'' 100, Obj [(''basePrompt'', Str ''1girl'')]),
               (runtime_of ''b'' 200, Obj [])]) one_chain)) = Some vrows'
         \<and> distinct (versions_of ''c1'' vrows')
         \<and> set (versions_of ''c1'' vrows') = {1..3})"
    by (simp add: runtime_of_def)
  let ?P = "store_platform rate_limited"
  let ?rt = "runtime_of ''a'' 100"
  let ?b = "Obj [(''basePrompt'', Str ''1girl'')]"
  let ?vrows = "[\<lparr> v_id = ''v1'', v_chain_id = ''c1'', v_version = 1,
                            v_base_prompt = Str ''masterpiece, best quality, {character}'',
                            v_negative_prompt = Str ''lowres, bad anatomy'',
                            v_modules = ''[]'', v_params = ''{}'', v_created_at = 10 \<rparr>]"
  let ?crows = "[\<lparr> ch_id = ''c1'', ch_name = Str ''Portraits'',
                          ch_description = Str ''studio light'', ch_tags = ''[]'',
                          ch_preview_image = Null, ch_created_at = 10, ch_updated_at = 10 \<rparr>]"
  have h: "d1_first ?P = store_first" "d1_run ?P = store_run" "DB bound_env = DB_d1"
    "''c1'' \<noteq> []" "CHR ''/'' \<notin> set ''c1''"
    "t_versions one_chain = Some ?vrows" "t_chains one_chain = Some ?crows"
    "''c1'' \<in> ch_id ` set ?crows"
    by (simp_all add: store_platform_def bound_env_def one_chain_def)
  have q: "randomUUID ?rt 0 \<notin> v_id ` set ?vrows \<and> version_body ?b"
    by (simp add: runtime_of_def version_body_def text_or_absent_def js_prop_def)
  have mx: "max_version ''c1'' ?vrows = Some 1"
    by (simp add: max_version_def versions_of_def)
  note T = createVersion_numbers_versions [OF h, of ?rt ?b]
  from T [THEN conjunct1, THEN mp, OF q]
  have new: "fetch (store_platform rate_limited) bound_env (runtime_of ''a'' 100)
      (snd (version_request ''c1''
              (runtime_of ''a'' 100, Obj [(''basePrompt'', Str ''1girl'')]))) one_chain
     = (json (store_platform rate_limited) (Obj [(''id'', Str ''a''), (''version'', Num 2)]) 200,
        one_chain
          \<lparr> t_versions := Some
               [\<lparr> v_id = ''v1'', v_chain_id = ''c1'', v_version = 1,
                  v_base_prompt = Str ''masterpiece, best quality, {character}'',
                  v_negative_prompt = Str ''lowres, bad anatomy'',
                  v_modules = ''[]'', v_params = ''{}'', v_created_at = 10 \<rparr>,
                \<lparr> v_id = ''a'', v_chain_id = ''c1'', v_version = 2,
                  v_base_prompt = Str ''1girl'', v_negative_prompt = Str [],
                  v_modules = ''[]'', v_params = ''{}'', v_created_at = 100 \<rparr>],
            t_chains := Some
               [\<lparr> ch_id = ''c1'', ch_name = Str ''Portraits'',
                  ch_description = Str ''studio light'', ch_tags = ''[]'',
                  ch_preview_image = Null, ch_created_at = 10, ch_updated_at = 101 \<rparr>] \<rparr>)"
    by (simp add: mx runtime_of_def js_prop_def js_or_def store_platform_def)
  from old new show ?thesis ..
qed

subsection \<open>Provisioning and retry\<close>




end
